theory Spec2Isabelle
  imports Main "HOL-Library.Multiset" "HOL-Library.Char_ord" "HOL-Library.List_Lexorder"
begin

section \<open>Delimiter matcher\<close>

text \<open>
  Python's \<^verbatim>\<open>content[start_pos:]\<close>: a negative start counts from the end and is clamped
  at the beginning; a start beyond the end gives the empty string.
\<close>

definition py_slice_from :: "'a list \<Rightarrow> int \<Rightarrow> 'a list" where
  "py_slice_from xs s =
     (if s < 0 then drop (nat (int (length xs) + s)) xs else drop (nat s) xs)"

text \<open>
  The loop of \<^verbatim>\<open>_find_matching_brace\<close> over \<^verbatim>\<open>enumerate(content[start_pos:], start_pos)\<close>:
  the remaining characters, the index \<open>i\<close> of the first of them, and \<open>brace_count\<close>.
  Falling off the end is the \<^verbatim>\<open>return -1\<close> after the loop.
\<close>

fun scan_braces :: "string \<Rightarrow> int \<Rightarrow> int \<Rightarrow> int" where
  "scan_braces [] i brace_count = - 1"
| "scan_braces (c # cs) i brace_count =
     (if c = CHR ''{'' then scan_braces cs (i + 1) (brace_count + 1)
      else if c = CHR ''}'' then
        (if brace_count - 1 = 0 then i else scan_braces cs (i + 1) (brace_count - 1))
      else scan_braces cs (i + 1) brace_count)"

definition find_matching_brace :: "string \<Rightarrow> int \<Rightarrow> int" where
  "find_matching_brace content start_pos =
     scan_braces (py_slice_from content start_pos) start_pos 0"

text \<open>
  The specification's depth counter, written independently of the loop: the depth after
  position \<open>j\<close>, counted from position \<open>s\<close>, is the number of opening braces minus the
  number of closing braces in \<open>content[s..j]\<close>.
\<close>

definition brace_delta :: "char \<Rightarrow> int" where
  "brace_delta c = (if c = CHR ''{'' then 1 else if c = CHR ''}'' then - 1 else 0)"

definition brace_depth :: "string \<Rightarrow> nat \<Rightarrow> nat \<Rightarrow> int" where
  "brace_depth content s j = sum_list (map brace_delta (take (Suc j - s) (drop s content)))"

section \<open>Data model\<close>

text \<open>
  Python strings are modelled as \<^typ>\<open>string\<close>, a list of 8-bit characters read as the
  code points U+0000 to U+00FF. Python integers are \<^typ>\<open>int\<close>.

  The dataclasses of the source. The parser attaches the attribute \<^verbatim>\<open>_source_file\<close> to
  the messages, enums and services it creates and tests for it with \<^verbatim>\<open>hasattr\<close>; it is
  an optional component here.
\<close>

record proto_field =
  f_name :: string
  f_type :: string
  f_number :: int
  f_label :: string
  f_comment :: string
  f_default_value :: string
  f_is_deprecated :: bool

text \<open>A Python dictionary keeps its keys unique and in insertion order: an association list.\<close>

type_synonym ('k, 'v) dict = "('k \<times> 'v) list"

record proto_enum =
  e_name :: string
  e_values :: "(string, int) dict"
  e_comment :: string
  e_source_file :: "string option"

datatype proto_message = ProtoMessage
  (m_name: string)
  (m_fields: "proto_field list")
  (m_comment: string)
  (m_nested_messages: "proto_message list")
  (m_enums: "proto_enum list")
  (m_source_file: "string option")

record proto_method =
  md_name :: string
  input_type :: string
  output_type :: string
  md_comment :: string
  http_method :: string
  http_path :: string
  http_body :: string

record proto_service =
  s_name :: string
  s_methods :: "proto_method list"
  s_comment :: string
  s_source_file :: "string option"

text \<open>The state of a \<^verbatim>\<open>ProtoParser\<close>: the registry.\<close>

record proto_parser =
  messages :: "(string, proto_message) dict"
  services :: "(string, proto_service) dict"
  enums :: "(string, proto_enum) dict"
  packages :: "(string, string) dict"
  file_imports :: "(string, string list) dict"

subsection \<open>Dictionary operations\<close>

text \<open>\<^verbatim>\<open>d[k] = v\<close>: an existing key keeps its place, a new key goes to the end.\<close>

fun dict_set :: "'k \<Rightarrow> 'v \<Rightarrow> ('k, 'v) dict \<Rightarrow> ('k, 'v) dict" where
  "dict_set k v [] = [(k, v)]"
| "dict_set k v ((k', v') # d) = (if k' = k then (k, v) # d else (k', v') # dict_set k v d)"

text \<open>\<^verbatim>\<open>d.get(k)\<close>, with \<open>None\<close> for a missing key.\<close>

definition dict_get :: "('k, 'v) dict \<Rightarrow> 'k \<Rightarrow> 'v option" where
  "dict_get d k = map_of d k"

text \<open>\<^verbatim>\<open>d.update(other)\<close>.\<close>

definition dict_update :: "('k, 'v) dict \<Rightarrow> ('k, 'v) dict \<Rightarrow> ('k, 'v) dict" where
  "dict_update d other = fold (\<lambda>(k, v) acc. dict_set k v acc) other d"

subsection \<open>String operations\<close>

text \<open>\<^verbatim>\<open>s.split('.')[-1]\<close>: the part of \<open>s\<close> after its last dot, all of \<open>s\<close> if it has none.\<close>

definition split_last :: "string \<Rightarrow> string" where
  "split_last s = rev (takeWhile (\<lambda>c. c \<noteq> CHR ''.'') (rev s))"

text \<open>\<^verbatim>\<open>'.'.join(s.split('.')[:-1])\<close>: the part of \<open>s\<close> before its last dot.\<close>

definition split_init :: "string \<Rightarrow> string" where
  "split_init s = rev (drop 1 (dropWhile (\<lambda>c. c \<noteq> CHR ''.'') (rev s)))"

definition startswith :: "string \<Rightarrow> string \<Rightarrow> bool" where
  "startswith s p = (take (length p) s = p)"

definition endswith :: "string \<Rightarrow> string \<Rightarrow> bool" where
  "endswith s p = (length p \<le> length s \<and> drop (length s - length p) s = p)"

text \<open>\<^verbatim>\<open>sub in s\<close> for strings.\<close>

fun contains :: "string \<Rightarrow> string \<Rightarrow> bool" where
  "contains [] sub = (sub = [])"
| "contains (c # cs) sub = (startswith (c # cs) sub \<or> contains cs sub)"

text \<open>
  \<^verbatim>\<open>str.lower\<close> and \<^verbatim>\<open>str.upper\<close> on the code points below 256. Lowering maps A-Z and
  the Latin-1 capitals U+00C0..U+00DE (without the multiplication sign U+00D7) 32 places
  up. Raising maps a-z and U+00E0..U+00FE (without the division sign U+00F7) 32 places
  down; the three code points whose capital lies outside this range or is not a single
  character (U+00B5, U+00DF, U+00FF) are left as they are, which is where the model stops
  following Python.
\<close>

definition lower_char :: "char \<Rightarrow> char" where
  "lower_char c = (let n = of_char c :: nat in
     if (65 \<le> n \<and> n \<le> 90) \<or> (192 \<le> n \<and> n \<le> 222 \<and> n \<noteq> 215) then char_of (n + 32) else c)"

definition upper_char :: "char \<Rightarrow> char" where
  "upper_char c = (let n = of_char c :: nat in
     if (97 \<le> n \<and> n \<le> 122) \<or> (224 \<le> n \<and> n \<le> 254 \<and> n \<noteq> 247) then char_of (n - 32) else c)"

definition lower :: "string \<Rightarrow> string" where
  "lower s = map lower_char s"

definition upper :: "string \<Rightarrow> string" where
  "upper s = map upper_char s"

section \<open>Qualification resolver\<close>

text \<open>
  The inner loops of \<^verbatim>\<open>_build_qualified_names\<close>, one for the messages and one for the
  enums: every entry of the dictionary whose entity comes from \<open>filepath\<close> is stored in the
  accumulator under its key prefixed with the package, and under its key.
\<close>

definition qualify_entries ::
  "('v \<Rightarrow> string option) \<Rightarrow> string \<Rightarrow> string \<Rightarrow> (string, 'v) dict \<Rightarrow> (string, 'v) dict \<Rightarrow> (string, 'v) dict"
where
  "qualify_entries source_file filepath package entries qualified =
     fold (\<lambda>(msg_name, msg) q.
             if source_file msg = Some filepath
             then dict_set msg_name msg (dict_set (package @ ''.'' @ msg_name) msg q)
             else q)
          entries qualified"

definition build_qualified_names :: "proto_parser \<Rightarrow> proto_parser" where
  "build_qualified_names P =
     (let (qualified_messages, qualified_enums) =
            fold (\<lambda>(filepath, package) (qm, qe).
                    (qualify_entries m_source_file filepath package (messages P) qm,
                     qualify_entries e_source_file filepath package (enums P) qe))
                 (packages P) ([], [])
      in P\<lparr>messages := dict_update (messages P) qualified_messages,
           enums := dict_update (enums P) qualified_enums\<rparr>)"

text \<open>
  The invariant of the data model that ingestion and the built-in types establish: a key is
  bound to the entity that its simple name (the part after the last dot) is bound to.
\<close>

definition simple_name_consistent :: "(string, 'v) dict \<Rightarrow> bool" where
  "simple_name_consistent d = (\<forall>(k, v) \<in> set d. (split_last k, v) \<in> set d)"

definition unique_keys :: "('k, 'v) dict \<Rightarrow> bool" where
  "unique_keys d = distinct (map fst d)"

text \<open>
  The two accumulators of \<^verbatim>\<open>_build_qualified_names\<close> do not depend on each other, so its
  effect on one dictionary can be written alone.
\<close>

definition qualify_dict ::
  "('v \<Rightarrow> string option) \<Rightarrow> (string, string) dict \<Rightarrow> (string, 'v) dict \<Rightarrow> (string, 'v) dict"
where
  "qualify_dict source_file pkgs entries =
     dict_update entries
       (fold (\<lambda>(filepath, package) q. qualify_entries source_file filepath package entries q) pkgs [])"

text \<open>
  A small registry as ingestion leaves it: one file \<^verbatim>\<open>a.proto\<close> of package \<^verbatim>\<open>demo\<close> with a
  message \<^verbatim>\<open>M\<close> and an enum \<^verbatim>\<open>E\<close>.
\<close>

definition demo_message :: proto_message where
  "demo_message = ProtoMessage ''M'' [] '''' [] [] (Some ''a.proto'')"

definition demo_enum :: proto_enum where
  "demo_enum = \<lparr>e_name = ''E'', e_values = [(''ZERO'', 0)], e_comment = '''',
                 e_source_file = Some ''a.proto''\<rparr>"

definition demo_registry :: proto_parser where
  "demo_registry = \<lparr>messages = [(''M'', demo_message)], services = [],
                     enums = [(''E'', demo_enum)], packages = [(''a.proto'', ''demo'')],
                     file_imports = []\<rparr>"

section \<open>Regular expressions\<close>

text \<open>
  The parser works with Python's \<^verbatim>\<open>re\<close> module. The patterns of the source are transcribed
  into the following syntax, and matched the way a backtracking matcher does: the
  alternatives of a match are listed in the order in which the matcher tries them, so the
  head of the list is the match that Python reports.
\<close>

datatype regex =
    Eps
  | Sym "char \<Rightarrow> bool"
  | Seq regex regex
  | Alt regex regex
  | Star regex
  | LazyStar regex
  | Group nat regex
  | Eol

type_synonym groups = "nat \<Rightarrow> string option"

text \<open>
  \<open>matches r cs g\<close>: every way in which \<open>r\<close> matches a prefix of \<open>cs\<close>, as the rest of the
  input after the match and the groups captured. \<open>Star\<close> is the greedy \<^verbatim>\<open>*\<close>, \<open>LazyStar\<close>
  is \<^verbatim>\<open>*?\<close>, \<open>Eol\<close> is \<^verbatim>\<open>$\<close> under \<^verbatim>\<open>re.MULTILINE\<close>. An iteration of a star that consumes
  nothing is not repeated.
\<close>

function matches :: "regex \<Rightarrow> string \<Rightarrow> groups \<Rightarrow> (string \<times> groups) list" where
  "matches Eps cs g = [(cs, g)]"
| "matches (Sym p) cs g = (case cs of [] \<Rightarrow> [] | c # cs' \<Rightarrow> if p c then [(cs', g)] else [])"
| "matches (Seq a b) cs g = concat (map (\<lambda>(cs', g'). matches b cs' g') (matches a cs g))"
| "matches (Alt a b) cs g = matches a cs g @ matches b cs g"
| "matches (Star r) cs g =
     concat (map (\<lambda>(cs', g'). if length cs' < length cs then matches (Star r) cs' g' else [])
                 (matches r cs g)) @ [(cs, g)]"
| "matches (LazyStar r) cs g =
     (cs, g) # concat (map (\<lambda>(cs', g'). if length cs' < length cs then matches (LazyStar r) cs' g' else [])
                           (matches r cs g))"
| "matches (Group n r) cs g =
     map (\<lambda>(cs', g'). (cs', g'(n \<mapsto> take (length cs - length cs') cs))) (matches r cs g)"
| "matches Eol cs g = (case cs of [] \<Rightarrow> [(cs, g)] | c # _ \<Rightarrow> if c = CHR 0x0A then [(cs, g)] else [])"
  by pat_completeness auto
termination
  by (relation "(\<lambda>(r, cs, g). size r) <*mlex*> measure (\<lambda>(r, cs, g). length cs)")
     (auto simp: wf_mlex mlex_less mlex_leq)

text \<open>Derived forms: \<^verbatim>\<open>r+\<close>, \<^verbatim>\<open>r?\<close>, a literal string, a sequence.\<close>

definition Plus :: "regex \<Rightarrow> regex" where
  "Plus r = Seq r (Star r)"

definition Opt :: "regex \<Rightarrow> regex" where
  "Opt r = Alt r Eps"

definition Chr :: "char \<Rightarrow> regex" where
  "Chr c = Sym (\<lambda>x. x = c)"

definition Lit :: "string \<Rightarrow> regex" where
  "Lit s = foldr (\<lambda>c r. Seq (Chr c) r) s Eps"

definition Seqs :: "regex list \<Rightarrow> regex" where
  "Seqs rs = foldr Seq rs Eps"

text \<open>
  The character classes of \<^verbatim>\<open>re\<close> on the code points below 256: \<^verbatim>\<open>\s\<close> is the white space of
  \<^verbatim>\<open>str.isspace\<close>, \<^verbatim>\<open>\d\<close> the decimal digits, \<^verbatim>\<open>\w\<close> the alphanumeric characters of
  \<^verbatim>\<open>str.isalnum\<close> and the underscore. The dot does not match a line feed, except under
  \<^verbatim>\<open>re.DOTALL\<close>.
\<close>

definition is_space :: "char \<Rightarrow> bool" where
  "is_space c = (let n = of_char c :: nat in
     (9 \<le> n \<and> n \<le> 13) \<or> (28 \<le> n \<and> n \<le> 32) \<or> n = 133 \<or> n = 160)"

definition is_digit :: "char \<Rightarrow> bool" where
  "is_digit c = (let n = of_char c :: nat in 48 \<le> n \<and> n \<le> 57)"

definition is_word :: "char \<Rightarrow> bool" where
  "is_word c = (let n = of_char c :: nat in
     (48 \<le> n \<and> n \<le> 57) \<or> (65 \<le> n \<and> n \<le> 90) \<or> n = 95 \<or> (97 \<le> n \<and> n \<le> 122)
     \<or> n = 170 \<or> n = 178 \<or> n = 179 \<or> n = 181 \<or> n = 185 \<or> n = 186
     \<or> (188 \<le> n \<and> n \<le> 190) \<or> (192 \<le> n \<and> n \<le> 214) \<or> (216 \<le> n \<and> n \<le> 246)
     \<or> 248 \<le> n)"

definition Space :: regex where "Space = Sym is_space"
definition Digit :: regex where "Digit = Sym is_digit"
definition Word :: regex where "Word = Sym is_word"
definition Dot :: regex where "Dot = Sym (\<lambda>c. c \<noteq> CHR 0x0A)"
definition DotAll :: regex where "DotAll = Sym (\<lambda>c. True)"
definition NotChr :: "char \<Rightarrow> regex" where "NotChr c = Sym (\<lambda>x. x \<noteq> c)"

text \<open>
  A match object: where the match starts and ends in the string searched, and its groups.
\<close>

record re_match =
  m_start :: nat
  m_end :: nat
  m_groups :: groups

text \<open>\<^verbatim>\<open>match.group(n) or ""\<close>.\<close>

definition group_or_empty :: "re_match \<Rightarrow> nat \<Rightarrow> string" where
  "group_or_empty m n = (case m_groups m n of None \<Rightarrow> '''' | Some s \<Rightarrow> s)"

text \<open>
  \<^verbatim>\<open>re.search\<close> from position \<open>pos\<close> of the string, of which \<open>cs\<close> is the part from \<open>pos\<close> on:
  the leftmost position with a match, and the first match there.
\<close>

fun search_from :: "regex \<Rightarrow> string \<Rightarrow> nat \<Rightarrow> re_match option" where
  "search_from r cs pos =
     (case matches r cs (\<lambda>_. None) of
        (rest, g) # _ \<Rightarrow> Some \<lparr>m_start = pos, m_end = pos + (length cs - length rest), m_groups = g\<rparr>
      | [] \<Rightarrow> (case cs of [] \<Rightarrow> None | _ # cs' \<Rightarrow> search_from r cs' (Suc pos)))"

definition re_search :: "regex \<Rightarrow> string \<Rightarrow> re_match option" where
  "re_search r s = search_from r s 0"

text \<open>
  \<^verbatim>\<open>re.finditer\<close>: the matches from left to right, each search starting where the match
  before ended. All patterns of the source consume at least one character; after an
  empty match the model moves on by one character.
\<close>

function finditer_from :: "regex \<Rightarrow> string \<Rightarrow> nat \<Rightarrow> re_match list" where
  "finditer_from r cs pos =
     (case search_from r cs pos of
        None \<Rightarrow> []
      | Some m \<Rightarrow>
          (let n = m_end m - pos in
           if 0 < n \<and> n \<le> length cs then m # finditer_from r (drop n cs) (m_end m)
           else (case cs of [] \<Rightarrow> [m] | _ # cs' \<Rightarrow> m # finditer_from r cs' (Suc pos))))"
  by pat_completeness auto
termination
  by (relation "measure (\<lambda>(r, cs, pos). length cs)") auto

definition re_finditer :: "regex \<Rightarrow> string \<Rightarrow> re_match list" where
  "re_finditer r s = finditer_from r s 0"

text \<open>\<^verbatim>\<open>re.sub(pattern, '', s)\<close>: the string without the matches.\<close>

definition re_remove :: "regex \<Rightarrow> string \<Rightarrow> string" where
  "re_remove r s =
     (let ms = re_finditer r s
      in concat (map (\<lambda>(a, b). take (b - a) (drop a s))
                     (zip (0 # map m_end ms) (map m_start ms @ [length s]))))"

text \<open>\<^verbatim>\<open>s[a:b]\<close> for indices within the string.\<close>

definition slice :: "string \<Rightarrow> nat \<Rightarrow> nat \<Rightarrow> string" where
  "slice s a b = take (b - a) (drop a s)"

section \<open>Schema extractor\<close>

subsection \<open>The patterns of the source\<close>

definition dq :: char where "dq = CHR 0x22"
definition sq :: char where "sq = CHR 0x27"
definition backslash :: char where "backslash = CHR 0x5C"
definition newline :: char where "newline = CHR 0x0A"

text \<open>\<^verbatim>\<open>package\s+([\w.]+);\<close>\<close>

definition package_pattern :: regex where
  "package_pattern =
     Seqs [Lit ''package'', Plus Space, Group 1 (Plus (Sym (\<lambda>c. is_word c \<or> c = CHR ''.''))),
           Chr CHR '';'']"

text \<open>\<^verbatim>\<open>import\s+"([^"]+)";\<close>\<close>

definition import_pattern :: regex where
  "import_pattern =
     Seqs [Lit ''import'', Plus Space, Chr dq, Group 1 (Plus (NotChr dq)), Chr dq, Chr CHR '';'']"

text \<open>\<^verbatim>\<open>/\*.*?\*/\<close> under \<^verbatim>\<open>re.DOTALL\<close> and \<^verbatim>\<open>//.*?$\<close> under \<^verbatim>\<open>re.MULTILINE\<close>\<close>

definition block_comment_pattern :: regex where
  "block_comment_pattern = Seqs [Lit ''/*'', LazyStar DotAll, Lit ''*/'']"

definition line_comment_pattern :: regex where
  "line_comment_pattern = Seqs [Lit ''//'', LazyStar Dot, Eol]"

text \<open>\<^verbatim>\<open>service\s+(\w+)\s*\{\<close>\<close>

definition service_start_pattern :: regex where
  "service_start_pattern =
     Seqs [Lit ''service'', Plus Space, Group 1 (Plus Word), Star Space, Chr CHR ''{'']"

text \<open>\<^verbatim>\<open>rpc\s+(\w+)\s*\((\w+)\)\s*returns\s*\((\w+)\)\s*\{\<close>\<close>

definition rpc_start_pattern :: regex where
  "rpc_start_pattern =
     Seqs [Lit ''rpc'', Plus Space, Group 1 (Plus Word), Star Space,
           Chr CHR ''('', Group 2 (Plus Word), Chr CHR '')'', Star Space,
           Lit ''returns'', Star Space,
           Chr CHR ''('', Group 3 (Plus Word), Chr CHR '')'', Star Space, Chr CHR ''{'']"

text \<open>\<^verbatim>\<open>option\s+\(google\.api\.http\)\s*=\s*\{\<close>\<close>

definition http_start_pattern :: regex where
  "http_start_pattern =
     Seqs [Lit ''option'', Plus Space, Lit ''(google.api.http)'', Star Space, Chr CHR ''='',
           Star Space, Chr CHR ''{'']"

text \<open>
  The f-string \<^verbatim>\<open>f'{http_method}:\\s*"([^"]+)"'\<close> is not a raw string: its \<^verbatim>\<open>\\s\<close> is the
  two characters \<^verbatim>\<open>\s\<close>, so the pattern is \<^verbatim>\<open>get:\s*"([^"]+)"\<close> for the verb \<^verbatim>\<open>get\<close>.
\<close>

definition method_pattern :: "string \<Rightarrow> regex" where
  "method_pattern verb =
     Seqs [Lit verb, Chr CHR '':'', Star Space, Chr dq, Group 1 (Plus (NotChr dq)), Chr dq]"

text \<open>
  The body pattern is the raw string \<^verbatim>\<open>r'body:\\s*"([^"]*)"'\<close>: in a raw string \<^verbatim>\<open>\\\<close> stays
  two characters, which the pattern language reads as one literal backslash, followed
  by \<^verbatim>\<open>s*\<close>, any number of the letter s.
\<close>

definition body_pattern :: regex where
  "body_pattern =
     Seqs [Lit ''body:'', Chr backslash, Star (Chr CHR ''s''), Chr dq, Group 1 (Star (NotChr dq)),
           Chr dq]"

text \<open>\<^verbatim>\<open>message\s+(\w+)\s*\{([^}]+(?:\{[^}]*\}[^}]*)*)\}\<close>\<close>

definition message_pattern :: regex where
  "message_pattern =
     Seqs [Lit ''message'', Plus Space, Group 1 (Plus Word), Star Space, Chr CHR ''{'',
           Group 2 (Seq (Plus (NotChr CHR ''}''))
                        (Star (Seqs [Chr CHR ''{'', Star (NotChr CHR ''}''), Chr CHR ''}'',
                                     Star (NotChr CHR ''}'')]))),
           Chr CHR ''}'']"

text \<open>
  \<^verbatim>\<open>(?:(repeated|optional|required)\s+)?(\w+(?:\.\w+)*)\s+(\w+)\s*=\s*(\d+)(?:\s*\[([^\]]*)\])?(?:\s*;//?\s*(.*))?\<close>
\<close>

definition trailing_comment :: "nat \<Rightarrow> regex" where
  "trailing_comment n =
     Opt (Seqs [Star Space, Chr CHR '';'', Chr CHR ''/'', Opt (Chr CHR ''/''), Star Space,
                Group n (Star Dot)])"

definition field_pattern :: regex where
  "field_pattern =
     Seqs [Opt (Seq (Group 1 (Alt (Lit ''repeated'') (Alt (Lit ''optional'') (Lit ''required''))))
                    (Plus Space)),
           Group 2 (Seq (Plus Word) (Star (Seq (Chr CHR ''.'') (Plus Word)))), Plus Space,
           Group 3 (Plus Word), Star Space, Chr CHR ''='', Star Space,
           Group 4 (Plus Digit),
           Opt (Seqs [Star Space, Chr CHR ''['', Group 5 (Star (NotChr CHR '']'')), Chr CHR '']'']),
           trailing_comment 6]"

text \<open>\<^verbatim>\<open>enum\s+(\w+)\s*\{([^}]+)\}\<close> and \<^verbatim>\<open>(\w+)\s*=\s*(\d+)(?:\s*;//?\s*(.*))?\<close>\<close>

definition enum_pattern :: regex where
  "enum_pattern =
     Seqs [Lit ''enum'', Plus Space, Group 1 (Plus Word), Star Space, Chr CHR ''{'',
           Group 2 (Plus (NotChr CHR ''}'')), Chr CHR ''}'']"

definition value_pattern :: regex where
  "value_pattern =
     Seqs [Group 1 (Plus Word), Star Space, Chr CHR ''='', Star Space, Group 2 (Plus Digit),
           trailing_comment 3]"

text \<open>
  \<^verbatim>\<open>rf'message\s+{re.escape(simple_name)}\s*\{{'\<close>: the escaped name matches itself.
\<close>

definition message_decl_pattern :: "string \<Rightarrow> regex" where
  "message_decl_pattern simple_name =
     Seqs [Lit ''message'', Plus Space, Lit simple_name, Star Space, Chr CHR ''{'']"

subsection \<open>Conversions\<close>

text \<open>
  \<^verbatim>\<open>int(s)\<close> on a string of decimal digits, which is what \<^verbatim>\<open>(\d+)\<close> captures. (CPython refuses
  strings of more than 4300 digits; the model does not.)
\<close>

definition int_of_digits :: "string \<Rightarrow> int" where
  "int_of_digits s = foldl (\<lambda>a c. 10 * a + (int (of_char c) - 48)) 0 s"

text \<open>\<^verbatim>\<open>str.strip()\<close>\<close>

definition strip :: "string \<Rightarrow> string" where
  "strip s = rev (dropWhile is_space (rev (dropWhile is_space s)))"

subsection \<open>Services, methods and HTTP bindings\<close>

text \<open>
  The loop over the verbs: the first verb of the list, in the order of the list, whose
  pattern is found in the option block.
\<close>

fun first_verb :: "string list \<Rightarrow> string \<Rightarrow> (string \<times> string) option" where
  "first_verb [] http_options = None"
| "first_verb (verb # rest) http_options =
     (case re_search (method_pattern verb) http_options of
        Some method_match \<Rightarrow> Some (upper verb, group_or_empty method_match 1)
      | None \<Rightarrow> first_verb rest http_options)"

definition parse_http_annotation :: "string \<Rightarrow> proto_method \<Rightarrow> proto_method" where
  "parse_http_annotation method_body method =
     (case re_search http_start_pattern method_body of
        None \<Rightarrow> method
      | Some http_start_match \<Rightarrow>
          (let http_start_pos = int (m_end http_start_match) - 1;
               http_end_pos = find_matching_brace method_body http_start_pos
           in if http_end_pos = - 1 then method
              else
                (let http_options = slice method_body (nat (http_start_pos + 1)) (nat http_end_pos);
                     method1 =
                       (case first_verb [''get'', ''post'', ''put'', ''delete'', ''patch''] http_options of
                          Some (verb, path) \<Rightarrow> method\<lparr>http_method := verb, http_path := path\<rparr>
                        | None \<Rightarrow> method)
                 in case re_search body_pattern http_options of
                      Some body_match \<Rightarrow> method1\<lparr>http_body := group_or_empty body_match 1\<rparr>
                    | None \<Rightarrow> method1)))"

text \<open>One \<^verbatim>\<open>rpc\<close> match in a service body; \<open>None\<close> is the \<^verbatim>\<open>continue\<close> of a malformed block.\<close>

definition parse_method :: "string \<Rightarrow> re_match \<Rightarrow> proto_method option" where
  "parse_method service_body rpc_start_match =
     (let rpc_start_pos = int (m_end rpc_start_match) - 1;
          rpc_end_pos = find_matching_brace service_body rpc_start_pos
      in if rpc_end_pos = - 1 then None
         else
           (let method_body = slice service_body (nat (rpc_start_pos + 1)) (nat rpc_end_pos);
                method = \<lparr>md_name = group_or_empty rpc_start_match 1,
                          input_type = group_or_empty rpc_start_match 2,
                          output_type = group_or_empty rpc_start_match 3,
                          md_comment = '''', http_method = '''', http_path = '''', http_body = ''''\<rparr>
            in Some (parse_http_annotation method_body method)))"

definition parse_service :: "string \<Rightarrow> string \<Rightarrow> re_match \<Rightarrow> proto_parser \<Rightarrow> proto_parser" where
  "parse_service content filepath start_match P =
     (let service_name = group_or_empty start_match 1;
          start_pos = int (m_end start_match) - 1;
          end_pos = find_matching_brace content start_pos
      in if end_pos = - 1 then P
         else
           (let service_body = slice content (nat (start_pos + 1)) (nat end_pos);
                service = \<lparr>s_name = service_name,
                           s_methods = List.map_filter (parse_method service_body)
                                         (re_finditer rpc_start_pattern service_body),
                           s_comment = '''', s_source_file = Some filepath\<rparr>
            in P\<lparr>services := dict_set service_name service (services P)\<rparr>))"

definition parse_services :: "string \<Rightarrow> string \<Rightarrow> proto_parser \<Rightarrow> proto_parser" where
  "parse_services content filepath P =
     fold (parse_service content filepath) (re_finditer service_start_pattern content) P"

subsection \<open>Messages and fields\<close>

definition parse_field :: "re_match \<Rightarrow> proto_field" where
  "parse_field field_match =
     (let label = group_or_empty field_match 1;
          field_type = group_or_empty field_match 2;
          field_name = group_or_empty field_match 3;
          field_number = int_of_digits (group_or_empty field_match 4);
          field_options = group_or_empty field_match 5;
          field_comment = group_or_empty field_match 6;
          is_deprecated = contains (lower field_options) ''deprecated = true''
      in \<lparr>f_name = field_name, f_type = field_type, f_number = field_number, f_label = label,
          f_comment = strip field_comment, f_default_value = '''',
          f_is_deprecated = is_deprecated\<rparr>)"

definition parse_message :: "string \<Rightarrow> re_match \<Rightarrow> proto_parser \<Rightarrow> proto_parser" where
  "parse_message filepath match P =
     (let message_name = group_or_empty match 1;
          message_body = group_or_empty match 2;
          message = ProtoMessage message_name
                      (map parse_field (re_finditer field_pattern message_body))
                      '''' [] [] (Some filepath)
      in P\<lparr>messages := dict_set message_name message (messages P)\<rparr>)"

definition parse_messages :: "string \<Rightarrow> string \<Rightarrow> proto_parser \<Rightarrow> proto_parser" where
  "parse_messages content filepath P =
     fold (parse_message filepath) (re_finditer message_pattern content) P"

subsection \<open>Enums\<close>

definition parse_enum :: "string \<Rightarrow> re_match \<Rightarrow> proto_parser \<Rightarrow> proto_parser" where
  "parse_enum filepath match P =
     (let enum_name = group_or_empty match 1;
          enum_body = group_or_empty match 2;
          vals = fold (\<lambda>value_match vs.
                         dict_set (group_or_empty value_match 1)
                                  (int_of_digits (group_or_empty value_match 2)) vs)
                      (re_finditer value_pattern enum_body) [];
          enum = \<lparr>e_name = enum_name, e_values = vals, e_comment = '''',
                  e_source_file = Some filepath\<rparr>
      in P\<lparr>enums := dict_set enum_name enum (enums P)\<rparr>)"

definition parse_enums :: "string \<Rightarrow> string \<Rightarrow> proto_parser \<Rightarrow> proto_parser" where
  "parse_enums content filepath P =
     fold (parse_enum filepath) (re_finditer enum_pattern content) P"

section \<open>Schema registry\<close>

text \<open>
  The file system is a function from paths to file contents, \<open>None\<close> for a file that
  cannot be opened. \<^verbatim>\<open>parse_file\<close> raises when the file cannot be opened (the result
  \<open>None\<close>), before it has changed the registry.
\<close>

type_synonym file_system = "string \<Rightarrow> string option"

definition remove_comments :: "string \<Rightarrow> string" where
  "remove_comments content = re_remove line_comment_pattern (re_remove block_comment_pattern content)"

definition parse_file :: "file_system \<Rightarrow> string \<Rightarrow> proto_parser \<Rightarrow> proto_parser option" where
  "parse_file fs filepath P =
     (case fs filepath of
        None \<Rightarrow> None
      | Some content \<Rightarrow>
          (let P1 = (case re_search package_pattern content of
                       Some package_match \<Rightarrow>
                         P\<lparr>packages := dict_set filepath (group_or_empty package_match 1) (packages P)\<rparr>
                     | None \<Rightarrow> P);
               import_matches = map (\<lambda>m. group_or_empty m 1) (re_finditer import_pattern content);
               P2 = (if import_matches \<noteq> []
                     then P1\<lparr>file_imports := dict_set filepath import_matches (file_imports P1)\<rparr>
                     else P1);
               content' = remove_comments content
           in Some (parse_enums content' filepath
                      (parse_messages content' filepath
                         (parse_services content' filepath P2)))))"

text \<open>The built-in types of \<^verbatim>\<open>_add_well_known_types\<close>.\<close>

definition mk_field :: "string \<Rightarrow> string \<Rightarrow> int \<Rightarrow> string \<Rightarrow> proto_field" where
  "mk_field n t i c = \<lparr>f_name = n, f_type = t, f_number = i, f_label = '''', f_comment = c,
                        f_default_value = '''', f_is_deprecated = False\<rparr>"

definition timestamp_msg :: proto_message where
  "timestamp_msg = ProtoMessage ''Timestamp''
     [mk_field ''seconds'' ''int64'' 1
        ''Represents seconds of UTC time since Unix epoch 1970-01-01T00:00:00Z.'',
      mk_field ''nanos'' ''int32'' 2
        ''Non-negative fractions of a second at nanosecond resolution.'']
     ''A Timestamp represents a point in time independent of any time zone or local calendar, encoded as a count of seconds and fractions of seconds at nanosecond resolution.''
     [] [] (Some ''google/protobuf/timestamp.proto'')"

definition duration_msg :: proto_message where
  "duration_msg = ProtoMessage ''Duration''
     [mk_field ''seconds'' ''int64'' 1 ''Signed seconds of the span of time.'',
      mk_field ''nanos'' ''int32'' 2
        ''Signed fractions of a second at nanosecond resolution of the span of time.'']
     ''A Duration represents a signed, fixed-length span of time represented as a count of seconds and fractions of seconds at nanosecond resolution.''
     [] [] (Some ''google/protobuf/duration.proto'')"

definition any_msg :: proto_message where
  "any_msg = ProtoMessage ''Any''
     [mk_field ''type_url'' ''string'' 1
        ''A URL/resource name that uniquely identifies the type of the serialized protocol buffer message.'',
      mk_field ''value'' ''bytes'' 2
        ''Must be a valid serialized protocol buffer of the above specified type.'']
     ''Any contains an arbitrary serialized protocol buffer message along with a URL that describes the type of the serialized message.''
     [] [] (Some ''google/protobuf/any.proto'')"

definition payload_msg :: proto_message where
  "payload_msg = ProtoMessage ''Payload''
     [mk_field ''metadata'' ''map<string,bytes>'' 1
        ''Metadata contains additional context information for this payload.'',
      mk_field ''data'' ''bytes'' 2 ''Serialized data.'']
     ''Payload is used to serialize/deserialize data that is passed to/from activity/workflow implementations that are language agnostic.''
     [] [] (Some ''temporal/api/common/v1/message.proto'')"

definition add_well_known_types :: "proto_parser \<Rightarrow> proto_parser" where
  "add_well_known_types P =
     P\<lparr>messages :=
         (dict_set ''temporal.api.common.v1.Payload'' payload_msg
         (dict_set ''Payload'' payload_msg
         (dict_set ''google.protobuf.Any'' any_msg
         (dict_set ''Any'' any_msg
         (dict_set ''google.protobuf.Duration'' duration_msg
         (dict_set ''Duration'' duration_msg
         (dict_set ''google.protobuf.Timestamp'' timestamp_msg
         (dict_set ''Timestamp'' timestamp_msg (messages P))))))))),
       packages :=
         (dict_set ''temporal/api/common/v1/message.proto'' ''temporal.api.common.v1''
         (dict_set ''google/protobuf/any.proto'' ''google.protobuf''
         (dict_set ''google/protobuf/duration.proto'' ''google.protobuf''
         (dict_set ''google/protobuf/timestamp.proto'' ''google.protobuf'' (packages P)))))\<rparr>"

text \<open>
  \<^verbatim>\<open>parse_repository\<close>: \<open>files\<close> are the paths that \<^verbatim>\<open>os.walk\<close> yields, in its order. A file
  that fails to parse is reported and skipped.
\<close>

definition empty_parser :: proto_parser where
  "empty_parser = \<lparr>messages = [], services = [], enums = [], packages = [], file_imports = []\<rparr>"

definition parse_repository :: "file_system \<Rightarrow> string list \<Rightarrow> proto_parser \<Rightarrow> proto_parser" where
  "parse_repository fs files P =
     build_qualified_names
       (add_well_known_types
          (fold (\<lambda>filepath P. if endswith filepath ''.proto''
                               then (case parse_file fs filepath P of Some P' \<Rightarrow> P' | None \<Rightarrow> P)
                               else P)
                files P))"

text \<open>
  An \<^verbatim>\<open>rpc\<close> body with an HTTP binding and a body field-mask, as in
  \<^verbatim>\<open>option (google.api.http) = { post: "/v1/items" body: "*" };\<close>
\<close>

definition binding_example_body :: string where
  "binding_example_body =
     ''option (google.api.http) = { post: '' @ [dq] @ ''/v1/items'' @ [dq]
       @ '' body: '' @ [dq] @ ''*'' @ [dq] @ '' };''"

definition binding_example_method :: proto_method where
  "binding_example_method =
     \<lparr>md_name = ''CreateItem'', input_type = ''CreateItemRequest'',
      output_type = ''CreateItemResponse'', md_comment = '''', http_method = '''',
      http_path = '''', http_body = ''''\<rparr>"

section \<open>Type resolution\<close>

text \<open>
  A \<^verbatim>\<open>HTMLDocumentationGenerator\<close> holds the parser, the template directory and the cache of
  the reference graph. Its methods read files; the file system is a parameter.
\<close>

datatype type_obj = Msg proto_message | Enm proto_enum

type_synonym referenced_types = "(string, type_obj \<times> string) dict"

record generator =
  parser :: proto_parser
  template_dir :: string
  referenced_types_cache :: "referenced_types option"

definition resolve_type_reference :: "proto_parser \<Rightarrow> string \<Rightarrow> proto_message option" where
  "resolve_type_reference P proto_type =
     (case dict_get (messages P) proto_type of
        Some m \<Rightarrow> Some m
      | None \<Rightarrow> dict_get (messages P) (split_last proto_type))"

definition resolve_enum_reference :: "proto_parser \<Rightarrow> string \<Rightarrow> proto_enum option" where
  "resolve_enum_reference P proto_type =
     (case dict_get (enums P) proto_type of
        Some e \<Rightarrow> Some e
      | None \<Rightarrow> dict_get (enums P) (split_last proto_type))"

definition should_expand_type :: "proto_parser \<Rightarrow> string \<Rightarrow> bool" where
  "should_expand_type P proto_type =
     (if proto_type \<in> set [''string'', ''int32'', ''int64'', ''bool'', ''double'', ''float'', ''bytes'']
      then False
      else if startswith proto_type ''google.protobuf.''
      then proto_type \<in> set [''google.protobuf.Timestamp'', ''google.protobuf.Duration'',
                               ''google.protobuf.Any'']
      else if startswith proto_type ''temporal.api.common.''
      then proto_type \<in> set [''temporal.api.common.v1.Payload'']
      else resolve_type_reference P proto_type \<noteq> None \<or> resolve_enum_reference P proto_type \<noteq> None)"

text \<open>
  The loop of \<^verbatim>\<open>_get_type_package\<close> over the files of the registry, for a type name without
  a dot: the package of the first file, not one of the built-in paths, that can be opened
  and declares a message of that name.
\<close>

fun find_declaring_package :: "file_system \<Rightarrow> string \<Rightarrow> (string, string) dict \<Rightarrow> string option" where
  "find_declaring_package fs type_name [] = None"
| "find_declaring_package fs type_name ((filepath, package) # rest) =
     (if startswith filepath ''google/protobuf/'' \<or> startswith filepath ''temporal/api/common/''
      then find_declaring_package fs type_name rest
      else (case fs filepath of
              None \<Rightarrow> find_declaring_package fs type_name rest
            | Some content \<Rightarrow>
                if re_search (message_decl_pattern (split_last type_name)) content \<noteq> None
                then Some package
                else find_declaring_package fs type_name rest))"

definition get_type_package :: "file_system \<Rightarrow> proto_parser \<Rightarrow> string \<Rightarrow> string option" where
  "get_type_package fs P type_name =
     (if startswith type_name ''google.protobuf.'' then Some ''google.protobuf''
      else if startswith type_name ''temporal.api.common.'' then Some ''temporal.api.common.v1''
      else if CHR ''.'' \<in> set type_name then Some (split_init type_name)
      else find_declaring_package fs type_name (packages P))"

definition get_service_package :: "proto_parser \<Rightarrow> proto_service \<Rightarrow> string option" where
  "get_service_package P service =
     (case s_source_file service of
        Some file \<Rightarrow> dict_get (packages P) file
      | None \<Rightarrow> None)"

definition is_type_relevant :: "string \<Rightarrow> bool" where
  "is_type_relevant type_name =
     (if type_name \<in> set [''google.protobuf.Empty'', ''google.protobuf.StringValue'',
                            ''google.protobuf.Int64Value'', ''google.protobuf.BoolValue'']
      then False
      else if startswith type_name ''temporal.api.enums.'' then False
      else if startswith type_name ''temporal.api.common.''
      then type_name \<in> set [''temporal.api.common.v1.Payload'']
      else if startswith type_name ''google.protobuf.''
      then type_name \<in> set [''google.protobuf.Timestamp'', ''google.protobuf.Duration'',
                              ''google.protobuf.Any'']
      else lower (split_last type_name)
             \<notin> set [''status'', ''state'', ''error'', ''metadata'', ''config'', ''info'', ''data'',
                      ''result''])"

section \<open>Type reference graph\<close>

text \<open>The packages of the files whose path contains \<^verbatim>\<open>cloudservice\<close>.\<close>

definition main_packages :: "proto_parser \<Rightarrow> string list" where
  "main_packages P = map snd (filter (\<lambda>(filepath, package). contains filepath ''cloudservice'') (packages P))"

text \<open>
  The test \<^verbatim>\<open>type_package and type_package not in main_packages and
  self._is_type_relevant(base_type)\<close>; a package that is \<open>None\<close> or empty is false.
\<close>

definition included_package :: "file_system \<Rightarrow> proto_parser \<Rightarrow> string \<Rightarrow> string option" where
  "included_package fs P base_type =
     (case get_type_package fs P base_type of
        None \<Rightarrow> None
      | Some type_package \<Rightarrow>
          if type_package \<noteq> '''' \<and> type_package \<notin> set (main_packages P) \<and> is_type_relevant base_type
          then Some type_package else None)"

text \<open>
  The nested function \<^verbatim>\<open>collect_from_message\<close>. The dictionary \<^verbatim>\<open>referenced_types\<close> of the
  enclosing function, which it updates, is passed in and returned. \<^verbatim>\<open>visited\<close> holds the
  names of the messages on the way from the root: the callee gets a copy, taken after the
  name of the caller went in, so what the callee adds is not seen by the caller.
\<close>

function collect_from_message ::
  "file_system \<Rightarrow> proto_parser \<Rightarrow> proto_message \<Rightarrow> string list \<Rightarrow> nat \<Rightarrow> referenced_types
   \<Rightarrow> referenced_types"
where
  "collect_from_message fs P message visited depth refs =
     (if m_name message \<in> set visited \<or> depth > 2 then refs
      else
        fold (\<lambda>field refs.
                if f_is_deprecated field then refs
                else if should_expand_type P (f_type field) then
                  (case resolve_type_reference P (f_type field) of
                     Some resolved_message \<Rightarrow>
                       (case included_package fs P (f_type field) of
                          Some type_package \<Rightarrow>
                            collect_from_message fs P resolved_message (m_name message # visited)
                              (depth + 1)
                              (dict_set (f_type field) (Msg resolved_message, type_package) refs)
                        | None \<Rightarrow> refs)
                   | None \<Rightarrow>
                       (case resolve_enum_reference P (f_type field) of
                          Some resolved_enum \<Rightarrow>
                            (case included_package fs P (f_type field) of
                               Some type_package \<Rightarrow>
                                 dict_set (f_type field) (Enm resolved_enum, type_package) refs
                             | None \<Rightarrow> refs)
                        | None \<Rightarrow> refs))
                else refs)
             (m_fields message) refs)"
  by pat_completeness auto
termination
  by (relation "measure (\<lambda>(fs, P, message, visited, depth, refs). 3 - depth)") auto

declare collect_from_message.simps [simp del]



text \<open>
  The messages from which the traversal starts: the input and the output message of every
  method, in the order of the services and their methods.
\<close>

definition method_messages :: "proto_parser \<Rightarrow> proto_method \<Rightarrow> proto_message list" where
  "method_messages P method =
     (if input_type method \<noteq> ''''
      then (case dict_get (messages P) (input_type method) of Some m \<Rightarrow> [m] | None \<Rightarrow> [])
      else [])
     @ (if output_type method \<noteq> ''''
        then (case dict_get (messages P) (output_type method) of Some m \<Rightarrow> [m] | None \<Rightarrow> [])
        else [])"

definition seed_messages :: "proto_parser \<Rightarrow> proto_message list" where
  "seed_messages P = concat (map (\<lambda>(service_name, service). concat (map (method_messages P) (s_methods service)))
                                 (services P))"

text \<open>
  \<^verbatim>\<open>_collect_referenced_types\<close>: the cached result if there is one, else the traversal from
  every seed message with an empty \<^verbatim>\<open>visited\<close> set at depth 0, which is then cached. (The
  set \<^verbatim>\<open>direct_types\<close> that the source also fills is not used for the result.)
\<close>

definition collect_referenced_types :: "file_system \<Rightarrow> generator \<Rightarrow> referenced_types \<times> generator" where
  "collect_referenced_types fs G =
     (case referenced_types_cache G of
        Some cached \<Rightarrow> (cached, G)
      | None \<Rightarrow>
          (let referenced_types =
                 fold (\<lambda>message refs. collect_from_message fs (parser G) message [] 0 refs)
                      (seed_messages (parser G)) []
           in (referenced_types, G\<lparr>referenced_types_cache := Some referenced_types\<rparr>)))"





text \<open>
  A registry with a reference cycle. The request message of the one method, in the
  primary package, refers to the messages \<^verbatim>\<open>A\<close> and \<^verbatim>\<open>B\<close> of the package \<^verbatim>\<open>ext.v1\<close> and to a
  message of its own package; \<^verbatim>\<open>A\<close> and \<^verbatim>\<open>B\<close> refer to each other, and a chain leads on from
  \<^verbatim>\<open>B\<close> to \<^verbatim>\<open>C\<close>, \<^verbatim>\<open>D\<close> and \<^verbatim>\<open>E\<close>.
\<close>

definition cycle_message :: "string \<Rightarrow> (string \<times> string) list \<Rightarrow> string \<Rightarrow> proto_message" where
  "cycle_message n flds file =
     ProtoMessage n (map (\<lambda>(fname, ftype). mk_field fname ftype 1 '''') flds) '''' [] [] (Some file)"

definition cycle_req :: proto_message where
  "cycle_req = cycle_message ''Req''
                 [(''a'', ''ext.v1.A''), (''b'', ''ext.v1.B''),
                  (''own'', ''temporal.api.cloud.cloudservice.v1.Own'')]
                 ''temporal/api/cloud/cloudservice/v1/service.proto''"

definition cycle_a :: proto_message where
  "cycle_a = cycle_message ''A'' [(''b'', ''ext.v1.B'')] ''ext/v1/message.proto''"

definition cycle_b :: proto_message where
  "cycle_b = cycle_message ''B'' [(''a'', ''ext.v1.A''), (''c'', ''ext.v1.C'')] ''ext/v1/message.proto''"

definition cycle_c :: proto_message where
  "cycle_c = cycle_message ''C'' [(''d'', ''ext.v1.D'')] ''ext/v1/message.proto''"

definition cycle_registry :: proto_parser where
  "cycle_registry =
     \<lparr>messages =
        [(''Req'', cycle_req),
         (''Own'', cycle_message ''Own'' [] ''temporal/api/cloud/cloudservice/v1/service.proto''),
         (''A'', cycle_a),
         (''B'', cycle_b),
         (''C'', cycle_c),
         (''D'', cycle_message ''D'' [(''e'', ''ext.v1.E'')] ''ext/v1/message.proto''),
         (''E'', cycle_message ''E'' [] ''ext/v1/message.proto'')],
      services =
        [(''CloudService'',
          \<lparr>s_name = ''CloudService'',
           s_methods = [\<lparr>md_name = ''Get'', input_type = ''Req'', output_type = ''Missing'',
                         md_comment = '''', http_method = '''', http_path = '''', http_body = ''''\<rparr>],
           s_comment = '''',
           s_source_file = Some ''temporal/api/cloud/cloudservice/v1/service.proto''\<rparr>)],
      enums = [],
      packages = [(''temporal/api/cloud/cloudservice/v1/service.proto'',
                   ''temporal.api.cloud.cloudservice.v1''),
                  (''ext/v1/message.proto'', ''ext.v1'')],
      file_imports = []\<rparr>"

definition cycle_generator :: generator where
  "cycle_generator = \<lparr>parser = cycle_registry, template_dir = ''templates'',
                        referenced_types_cache = None\<rparr>"

definition no_files :: file_system where
  "no_files path = None"

section \<open>Text helpers of the renderer\<close>

text \<open>\<^verbatim>\<open>html.escape(s)\<close>, which also escapes both kinds of quotes.\<close>

definition html_escape_char :: "char \<Rightarrow> string" where
  \<open>html_escape_char c =
     (if c = CHR ''&'' then ''&amp;''
      else if c = CHR ''<'' then ''&lt;''
      else if c = CHR ''>'' then ''&gt;''
      else if c = dq then ''&quot;''
      else if c = sq then ''&#x27;''
      else [c])\<close>

definition html_escape :: "string \<Rightarrow> string" where
  "html_escape s = concat (map html_escape_char s)"

text \<open>\<^verbatim>\<open>sep.join(xs)\<close>\<close>

fun join :: "string \<Rightarrow> string list \<Rightarrow> string" where
  "join sep [] = ''''"
| "join sep [x] = x"
| "join sep (x # y # ys) = x @ sep @ join sep (y # ys)"

text \<open>The decimal digits of a number, as \<^verbatim>\<open>str\<close> prints an integer.\<close>

fun digits_of :: "nat \<Rightarrow> string" where
  "digits_of n = (if n < 10 then [char_of (48 + n)] else digits_of (n div 10) @ [char_of (48 + n mod 10)])"

declare digits_of.simps [simp del]

definition str_of_int :: "int \<Rightarrow> string" where
  "str_of_int i = (if i < 0 then CHR ''-'' # digits_of (nat (- i)) else digits_of (nat i))"

text \<open>
  \<^verbatim>\<open>os.path.join(a, b)\<close> for a relative second part, as the template names are.
\<close>

definition path_join :: "string \<Rightarrow> string \<Rightarrow> string" where
  "path_join a b = (if a = '''' then b else if last a = CHR ''/'' then a @ b else a @ ''/'' @ b)"

section \<open>Example payloads\<close>

text \<open>
  The values that the example synthesis builds and \<^verbatim>\<open>json.dumps\<close> prints. The one float of
  the program is the literal \<^verbatim>\<open>123.45\<close>; a float carries its printed form.
\<close>

datatype json =
    JStr string
  | JInt int
  | JBool bool
  | JFloat string
  | JArr "json list"
  | JObj "(string \<times> json) list"

text \<open>
  \<^verbatim>\<open>json.dumps(value, indent=2)\<close> with the default \<^verbatim>\<open>ensure_ascii\<close>: inside a string the
  quote, the backslash and the control characters with a short form are escaped by a
  backslash, every other character outside the printable ASCII range as \<^verbatim>\<open>\u00XX\<close>.
\<close>

definition hex_digit :: "nat \<Rightarrow> char" where
  "hex_digit n = (if n < 10 then char_of (48 + n) else char_of (87 + n))"

definition json_escape_char :: "char \<Rightarrow> string" where
  "json_escape_char c =
     (let n = of_char c :: nat in
      if c = dq then [backslash, dq]
      else if c = backslash then [backslash, backslash]
      else if n = 10 then [backslash, CHR ''n'']
      else if n = 13 then [backslash, CHR ''r'']
      else if n = 9 then [backslash, CHR ''t'']
      else if n = 8 then [backslash, CHR ''b'']
      else if n = 12 then [backslash, CHR ''f'']
      else if 32 \<le> n \<and> n \<le> 126 then [c]
      else [backslash, CHR ''u'', CHR ''0'', CHR ''0'', hex_digit (n div 16), hex_digit (n mod 16)])"

definition json_string :: "string \<Rightarrow> string" where
  "json_string s = [dq] @ concat (map json_escape_char s) @ [dq]"

fun dumps :: "nat \<Rightarrow> json \<Rightarrow> string" where
  "dumps level (JStr s) = json_string s"
| "dumps level (JInt i) = str_of_int i"
| "dumps level (JBool b) = (if b then ''true'' else ''false'')"
| "dumps level (JFloat s) = s"
| "dumps level (JArr xs) =
     (if xs = [] then ''[]''
      else ''['' @ [newline]
           @ join ('','' @ [newline])
               (map (\<lambda>x. replicate (2 * (level + 1)) CHR '' '' @ dumps (level + 1) x) xs)
           @ [newline] @ replicate (2 * level) CHR '' '' @ '']'')"
| "dumps level (JObj kvs) =
     (if kvs = [] then ''{}''
      else ''{'' @ [newline]
           @ join ('','' @ [newline])
               (map (\<lambda>(k, v). replicate (2 * (level + 1)) CHR '' '' @ json_string k @ '': ''
                                 @ dumps (level + 1) v) kvs)
           @ [newline] @ replicate (2 * level) CHR '' '' @ ''}'')"

definition json_dumps :: "json \<Rightarrow> string" where
  "json_dumps v = dumps 0 v"

text \<open>The table \<^verbatim>\<open>type_examples\<close> of \<^verbatim>\<open>_get_example_value\<close>.\<close>

definition type_examples :: "(string, json) dict" where
  "type_examples =
     [(''string'', JStr ''example_string''),
      (''int32'', JInt 123),
      (''int64'', JInt 123456789),
      (''bool'', JBool True),
      (''double'', JFloat ''123.45''),
      (''float'', JFloat ''123.45''),
      (''bytes'', JStr ''base64_encoded_data'')]"

text \<open>
  A loop that stops at the first step without a result: the steps of the source raise when
  the recursion below them does.
\<close>

fun fold_option :: "('a \<Rightarrow> 'b \<Rightarrow> 'b option) \<Rightarrow> 'a list \<Rightarrow> 'b \<Rightarrow> 'b option" where
  "fold_option f [] acc = Some acc"
| "fold_option f (x # xs) acc = (case f x acc of None \<Rightarrow> None | Some acc' \<Rightarrow> fold_option f xs acc')"

lemma fold_option_mono [partial_function_mono]:
  assumes "\<And>x acc. mono_option (\<lambda>g. F g x acc)"
  shows "mono_option (\<lambda>g. fold_option (F g) xs acc)"
proof (induction xs arbitrary: acc)
  case Nil
  show ?case by (simp add: option.const_mono)
next
  case (Cons x xs)
  have "mono_option (\<lambda>g. Option.bind (F g x acc) (\<lambda>acc'. fold_option (F g) xs acc'))"
    by (rule bind_mono [OF assms Cons])
  moreover have "\<And>g. Option.bind (F g x acc) (\<lambda>acc'. fold_option (F g) xs acc')
                      = fold_option (F g) (x # xs) acc"
    by (simp split: option.splits)
  ultimately show ?case by simp
qed

text \<open>
  \<^verbatim>\<open>_get_example_value\<close>, with \<^verbatim>\<open>_get_nested_example_value\<close> written into its branch for the
  expandable types. The two call each other as long as nested fields have message types;
  on a registry with a reference cycle the recursion does not end (Python gives up with a
  \<^verbatim>\<open>RecursionError\<close>), and the result is \<open>None\<close>.
\<close>

partial_function (option) get_example_value :: "proto_parser \<Rightarrow> proto_field \<Rightarrow> json option" where
  "get_example_value P field =
     (let base_type = lower (split_last (f_type field)) in
      case dict_get type_examples base_type of
        Some v \<Rightarrow> Some v
      | None \<Rightarrow>
          if contains base_type ''timestamp'' then Some (JStr ''2023-12-01T12:00:00Z'')
          else if endswith (f_name field) ''_id'' then Some (JStr ''unique_identifier_123'')
          else if contains (lower (f_name field)) ''email'' then Some (JStr ''user@example.com'')
          else if contains (lower (f_name field)) ''name'' then Some (JStr ''example_name'')
          else if should_expand_type P (f_type field) then
            (case resolve_type_reference P (f_type field) of
               Some resolved_message \<Rightarrow>
                 Option.bind
                   (fold_option
                      (\<lambda>nested_field nested_example.
                         if f_is_deprecated nested_field then Some nested_example
                         else Option.bind (get_example_value P nested_field)
                                (\<lambda>v. Some (dict_set (f_name nested_field) v nested_example)))
                      (take 3 (m_fields resolved_message)) [])
                   (\<lambda>nested_example. Some (JObj nested_example))
             | None \<Rightarrow> Some (JStr (''example_'' @ lower (split_last (f_type field)))))
          else Some (JStr (''example_'' @ f_name field)))"

declare get_example_value.simps [code]

text \<open>
  \<^verbatim>\<open>_get_nested_example_value\<close> on its own: the object for the fields of a message, and the
  function itself.
\<close>

definition nested_example :: "proto_parser \<Rightarrow> proto_field list \<Rightarrow> json option" where
  "nested_example P flds =
     Option.bind
       (fold_option
          (\<lambda>nested_field nested_example.
             if f_is_deprecated nested_field then Some nested_example
             else Option.bind (get_example_value P nested_field)
                    (\<lambda>v. Some (dict_set (f_name nested_field) v nested_example)))
          (take 3 flds) [])
       (\<lambda>nested_example. Some (JObj nested_example))"


text \<open>\<^verbatim>\<open>_generate_example_json\<close>\<close>

definition example_dict :: "proto_parser \<Rightarrow> proto_message \<Rightarrow> (string, json) dict option" where
  "example_dict P message =
     fold_option
       (\<lambda>field example.
          if f_is_deprecated field then Some example
          else Option.bind (get_example_value P field)
                 (\<lambda>example_value.
                    Some (dict_set (f_name field)
                            (if f_label field = ''repeated'' then JArr [example_value] else example_value)
                            example)))
       (m_fields message) []"

definition generate_example_json :: "proto_parser \<Rightarrow> proto_message \<Rightarrow> string option" where
  "generate_example_json P message = map_option (\<lambda>example. json_dumps (JObj example)) (example_dict P message)"










section \<open>Documentation renderer\<close>

text \<open>
  The rendering functions build the document as a list of lines. A function that calls the
  example synthesis has no result (\<open>None\<close>) where the synthesis has none.
\<close>

subsection \<open>Templates\<close>

definition get_fallback_template :: "string \<Rightarrow> string" where
  \<open>get_fallback_template template_name =
     (if template_name = ''html_head.html''
      then ''<!DOCTYPE html><html><head><meta charset="UTF-8"><title>{title}</title></head><body><div class="container">''
      else if template_name = ''html_footer.html''
      then ''</div><script>{javascript}</script></body></html>''
      else if template_name = ''scripts.js''
      then ''// Fallback JavaScript''
      else '''')\<close>

text \<open>
  \<^verbatim>\<open>_load_template\<close>: a template that is not found is replaced by the fallback. (Other
  failures of \<^verbatim>\<open>open\<close> are not caught by the source and are not modelled.)
\<close>

definition load_template :: "file_system \<Rightarrow> generator \<Rightarrow> string \<Rightarrow> string" where
  "load_template fs G template_name =
     (case fs (path_join (template_dir G) template_name) of
        Some text \<Rightarrow> text
      | None \<Rightarrow> get_fallback_template template_name)"

text \<open>
  \<^verbatim>\<open>template.format(key=value)\<close> with one keyword argument. Doubled braces stand for a
  brace, \<^verbatim>\<open>{key}\<close> for the value; a single closing brace, an opening brace without its
  closing brace and a field of another name raise (\<open>None\<close>). Fields with a conversion, a
  format specification or an attribute are not modelled and count as raising as well.
\<close>

function py_format :: "string \<Rightarrow> string \<Rightarrow> string \<Rightarrow> string option" where
  "py_format [] key val = Some []"
| "py_format (c # cs) key val =
     (if c = CHR ''{'' then
        (case cs of
           [] \<Rightarrow> None
         | d # ds \<Rightarrow>
             if d = CHR ''{'' then map_option ((#) CHR ''{'') (py_format ds key val)
             else
               (let field_name = takeWhile (\<lambda>x. x \<noteq> CHR ''}'') cs;
                    rest = dropWhile (\<lambda>x. x \<noteq> CHR ''}'') cs
                in if rest = [] \<or> field_name \<noteq> key then None
                   else map_option ((@) val) (py_format (tl rest) key val)))
      else if c = CHR ''}'' then
        (case cs of
           [] \<Rightarrow> None
         | d # ds \<Rightarrow> if d = CHR ''}'' then map_option ((#) CHR ''}'') (py_format ds key val) else None)
      else map_option ((#) c) (py_format cs key val))"
  by pat_completeness auto
termination
proof (relation "measure (\<lambda>(s, key, val). length s)")
  fix c :: char and cs key val :: string and d ds field_name rest
  assume "rest = dropWhile (\<lambda>x. x \<noteq> CHR ''}'') cs" and "\<not> (rest = [] \<or> field_name \<noteq> key)"
  then have "length (tl rest) < length (c # cs)"
    using length_dropWhile_le [of "\<lambda>x. x \<noteq> CHR ''}''" cs] by (cases rest) auto
  then show "((tl rest, key, val), (c # cs, key, val)) \<in> measure (\<lambda>(s, key, val). length s)"
    by simp
qed auto

subsection \<open>Types in tables\<close>

definition is_external_type :: "file_system \<Rightarrow> proto_parser \<Rightarrow> string \<Rightarrow> bool" where
  "is_external_type fs P proto_type =
     (case get_type_package fs P proto_type of
        None \<Rightarrow> False
      | Some type_package \<Rightarrow> type_package \<noteq> '''' \<and> type_package \<notin> set (main_packages P))"

definition is_referenced_type :: "file_system \<Rightarrow> generator \<Rightarrow> string \<Rightarrow> bool" where
  "is_referenced_type fs G proto_type =
     (proto_type \<in> fst ` set (fst (collect_referenced_types fs G)))"

definition type_mapping :: "(string, string) dict" where
  "type_mapping =
     [(''string'', ''string''), (''int32'', ''integer''), (''int64'', ''integer''),
      (''bool'', ''boolean''), (''double'', ''number''), (''float'', ''number''),
      (''bytes'', ''string (base64)'')]"

definition format_type :: "file_system \<Rightarrow> generator \<Rightarrow> string \<Rightarrow> bool \<Rightarrow> string" where
  \<open>format_type fs G proto_type create_links =
     (let base_type = lower (split_last proto_type);
          formatted_type = (case dict_get type_mapping base_type of Some t \<Rightarrow> t | None \<Rightarrow> proto_type)
      in if create_links \<and> is_external_type fs (parser G) proto_type
         then (if is_referenced_type fs G proto_type
               then ''<a href="#ref-'' @ lower (split_last proto_type) @ ''">'' @ formatted_type @ ''</a>''
               else formatted_type)
         else formatted_type)\<close>

text \<open>\<^verbatim>\<open>field.comment or "No description available"\<close>, escaped.\<close>

definition description_of :: "proto_field \<Rightarrow> string" where
  "description_of field =
     html_escape (if f_comment field = '''' then ''No description available'' else f_comment field)"

subsection \<open>Navigation\<close>

text \<open>
  The flat list of the referenced types without repeated simple names: the first entry of
  a simple name stays.
\<close>

fun dedup_simple :: "string list \<Rightarrow> (string \<times> 'a) list \<Rightarrow> (string \<times> 'a) list" where
  "dedup_simple seen [] = []"
| "dedup_simple seen ((type_name, x) # rest) =
     (if split_last type_name \<in> set seen then dedup_simple seen rest
      else (type_name, x) # dedup_simple (split_last type_name # seen) rest)"

definition sidebar_service :: "string \<times> proto_service \<Rightarrow> string list" where
  \<open>sidebar_service entry =
     (case entry of (service_name, service) \<Rightarrow>
        [''<li class="nav-item">'',
         ''<a href="#'' @ lower service_name @ ''" class="nav-link">'' @ service_name @ ''</a>'',
         ''<ul class="nav-sublist">'']
        @ concat (map (\<lambda>method.
                         [''<li>'',
                          ''<a href="#'' @ lower (md_name method) @ ''" class="nav-sublink">''
                            @ md_name method @ ''</a>'',
                          ''</li>''])
                      (s_methods service))
        @ [''</ul>'', ''</li>''])\<close>

definition generate_sidebar_lines :: "file_system \<Rightarrow> generator \<Rightarrow> string list" where
  \<open>generate_sidebar_lines fs G =
     [''<nav class="sidebar">'',
      ''<div class="sidebar-content">'',
      ''<div class="search-container">'',
      ''<input type="text" class="search-input" id="searchInput" placeholder="Search services and types...">'',
      ''<div class="search-results" id="searchResults"></div>'',
      ''</div>'',
      ''<h2>Services</h2>'',
      ''<ul class="nav-list">'']
     @ concat (map sidebar_service (services (parser G)))
     @ [''</ul>'']
     @ (let referenced_types = fst (collect_referenced_types fs G)
        in if referenced_types = [] then []
           else [''<h2>Types</h2>'', ''<ul class="nav-list">'']
                @ concat (map (\<lambda>simple_name.
                                 [''<li>'',
                                  ''<a href="#ref-'' @ lower simple_name @ ''" class="nav-sublink">''
                                    @ simple_name @ ''</a>'',
                                  ''</li>''])
                              (sort_key (\<lambda>x. x)
                                 (map (\<lambda>(type_name, x). split_last type_name)
                                      (dedup_simple [] referenced_types))))
                @ [''</ul>''])
     @ [''</div>'', ''</nav>'']\<close>

definition generate_sidebar :: "file_system \<Rightarrow> generator \<Rightarrow> string" where
  "generate_sidebar fs G = join [newline] (generate_sidebar_lines fs G)"

subsection \<open>Request and response tables\<close>

definition message_row :: "file_system \<Rightarrow> generator \<Rightarrow> proto_field \<Rightarrow> string list" where
  \<open>message_row fs G field =
     (let required = (if f_label field = ''required'' then ''Yes'' else ''No'');
          field_type = (if f_label field = ''repeated''
                        then ''Array&lt;'' @ format_type fs G (f_type field) True @ ''&gt;''
                        else format_type fs G (f_type field) True)
      in [''<tr>'',
          ''<td><code>'' @ html_escape (f_name field) @ ''</code></td>'',
          ''<td>'' @ field_type @ ''</td>'',
          ''<td>'' @ required @ ''</td>'',
          ''<td>'' @ description_of field @ ''</td>'',
          ''</tr>''])\<close>

definition generate_html_message_docs ::
  "file_system \<Rightarrow> generator \<Rightarrow> proto_message \<Rightarrow> bool \<Rightarrow> string list" where
  \<open>generate_html_message_docs fs G message is_request =
     (if m_fields message = []
      then [''<p>'' @ (if is_request then ''No parameters required.'' else ''Empty response.'') @ ''</p>'']
      else [''<table>'', ''<thead>'', ''<tr>'',
            ''<th>Parameter</th>'', ''<th>Type</th>'', ''<th>Required</th>'', ''<th>Description</th>'',
            ''</tr>'', ''</thead>'', ''<tbody>'']
           @ concat (map (message_row fs G) (filter (\<lambda>field. \<not> f_is_deprecated field) (m_fields message)))
           @ [''</tbody>'', ''</table>''])\<close>

subsection \<open>Examples\<close>

text \<open>
  The parts of the curl command of \<^verbatim>\<open>_generate_curl_example\<close>, and the two places where the
  command is laid out: as the attribute value, joined into one string, and as the lines
  shown.
\<close>

definition curl_body_part :: "proto_parser \<Rightarrow> proto_method \<Rightarrow> string list option" where
  \<open>curl_body_part P method =
     (if http_method method \<in> set [''POST'', ''PUT'', ''PATCH''] \<and> input_type method \<noteq> ''''
      then (case dict_get (messages P) (input_type method) of
              Some input_message \<Rightarrow>
                if m_fields input_message \<noteq> []
                then Option.bind (generate_example_json P input_message)
                       (\<lambda>example_body.
                          Some [''-d '' @ [sq]
                                @ concat (map (\<lambda>c. if c = sq then [sq, dq, sq, dq, sq] else [c]) example_body)
                                @ [sq]])
                else Some []
            | None \<Rightarrow> Some [])
      else Some [])\<close>

definition curl_parts :: "proto_parser \<Rightarrow> proto_method \<Rightarrow> string list option" where
  \<open>curl_parts P method =
     Option.bind (curl_body_part P method)
       (\<lambda>body.
          Some ([''curl'']
                @ (if http_method method \<noteq> '''' \<and> upper (http_method method) \<noteq> ''GET''
                   then [''-X '' @ upper (http_method method)] else [])
                @ [[dq] @ ''https://saas-api.tmprl.cloud'' @ http_path method @ [dq]]
                @ [''-H "Content-Type: application/json"'',
                   ''-H "Authorization: Bearer YOUR_API_KEY"'']
                @ body))\<close>

definition curl_lines :: "string list \<Rightarrow> string list" where
  "curl_lines parts =
     (if length parts \<le> 3 then [join '' '' parts]
      else [hd parts @ '' '' @ [backslash]]
           @ map (\<lambda>part. ''  '' @ part @ '' '' @ [backslash]) (butlast (tl parts))
           @ [''  '' @ last parts])"

definition generate_curl_example :: "proto_parser \<Rightarrow> proto_method \<Rightarrow> string list option" where
  \<open>generate_curl_example P method =
     Option.bind (curl_parts P method)
       (\<lambda>parts.
          (let curl_command = join [newline] (curl_lines parts);
               method_id = lower (md_name method)
           in Some ([''<div class="code-block-container">'',
                     ''<button class="copy-button" data-copy-target="curl-code-'' @ method_id
                       @ ''" title="Copy curl command">Copy</button>'',
                     ''<pre><code id="curl-code-'' @ method_id @ ''" data-curl-command="''
                       @ html_escape curl_command @ ''">'']
                    @ map html_escape (curl_lines parts)
                    @ [''</code></pre>'', ''</div>''])))\<close>

text \<open>The request body of the HTTP tab and the response example, each when it applies.\<close>

definition http_body_lines :: "proto_parser \<Rightarrow> proto_method \<Rightarrow> string list option" where
  "http_body_lines P method =
     (if http_method method \<in> set [''POST'', ''PUT'', ''PATCH''] \<and> input_type method \<noteq> ''''
      then (case dict_get (messages P) (input_type method) of
              Some input_message \<Rightarrow>
                if m_fields input_message \<noteq> []
                then Option.bind (generate_example_json P input_message)
                       (\<lambda>example_body. Some [html_escape example_body])
                else Some []
            | None \<Rightarrow> Some [])
      else Some [])"

definition response_pane :: "proto_parser \<Rightarrow> proto_method \<Rightarrow> bool \<Rightarrow> string list option" where
  \<open>response_pane P method first_tab =
     (if output_type method \<noteq> ''''
      then (case dict_get (messages P) (output_type method) of
              Some output_message \<Rightarrow>
                Option.bind (generate_example_json P output_message)
                  (\<lambda>example_response.
                     Some [''<div class="tab-pane '' @ (if first_tab then ''active'' else '''')
                             @ ''" id="response-'' @ lower (md_name method) @ ''">'',
                           ''<pre><code>'',
                           html_escape example_response,
                           ''</code></pre>'',
                           ''</div>''])
            | None \<Rightarrow> Some [])
      else Some [])\<close>

definition generate_html_example :: "proto_parser \<Rightarrow> proto_method \<Rightarrow> string list option" where
  \<open>generate_html_example P method =
     (let method_id = lower (md_name method);
          has_http = (http_method method \<noteq> '''' \<and> http_path method \<noteq> '''');
          has_response = (output_type method \<noteq> '''')
      in Option.bind (if has_http then generate_curl_example P method else Some [])
           (\<lambda>curl.
        Option.bind (if has_http then http_body_lines P method else Some [])
           (\<lambda>body.
        Option.bind (response_pane P method (\<not> has_http))
           (\<lambda>response.
              Some ([''<div class="example-section">'',
                     ''<h4>Example</h4>'',
                     ''<div class="tab-container">'',
                     ''<div class="tab-nav">'']
                    @ (if has_http
                       then [''<button class="tab-button active" data-tab="curl-'' @ method_id @ ''">curl</button>'',
                             ''<button class="tab-button" data-tab="http-'' @ method_id @ ''">HTTP</button>'']
                       else [])
                    @ (if has_response
                       then [''<button class="tab-button '' @ (if has_http then '''' else ''active'')
                               @ ''" data-tab="response-'' @ method_id @ ''">Response</button>'']
                       else [])
                    @ [''</div>'', ''<div class="tab-content">'']
                    @ (if has_http
                       then [''<div class="tab-pane active" id="curl-'' @ method_id @ ''">'']
                            @ curl @ [''</div>'']
                            @ [''<div class="tab-pane" id="http-'' @ method_id @ ''">'',
                               ''<pre><code>'',
                               html_escape (http_method method) @ '' '' @ html_escape (http_path method),
                               ''Content-Type: application/json'',
                               ''Authorization: Bearer YOUR_API_KEY'',
                               '''']
                            @ body
                            @ [''</code></pre>'', ''</div>'']
                       else [])
                    @ response
                    @ [''</div>'', ''</div>'', ''</div>''])))))\<close>

subsection \<open>Methods and services\<close>

definition generate_html_method_docs ::
  "file_system \<Rightarrow> generator \<Rightarrow> proto_method \<Rightarrow> proto_service \<Rightarrow> string list option" where
  \<open>generate_html_method_docs fs G method service =
     (let P = parser G; method_anchor = lower (md_name method)
      in Option.bind (generate_html_example P method)
           (\<lambda>example.
              Some ([''<div class="method-header">'',
                     ''<h3 id="'' @ method_anchor @ ''">'' @ html_escape (md_name method) @ ''</h3>'',
                     ''<button class="link-button" data-anchor="'' @ method_anchor
                       @ ''" title="Copy link to this method">#</button>'',
                     ''</div>'']
                    @ (case get_service_package P service of
                         Some service_package \<Rightarrow>
                           if service_package \<noteq> ''''
                           then [''<p><em>From package:</em> <code>'' @ service_package @ ''</code></p>'']
                           else []
                       | None \<Rightarrow> [])
                    @ (if md_comment method \<noteq> ''''
                       then [''<p>'' @ html_escape (md_comment method) @ ''</p>''] else [])
                    @ (if http_method method \<noteq> '''' \<and> http_path method \<noteq> ''''
                       then [''<div class="method-endpoint">'',
                             ''<code>'' @ html_escape (http_method method) @ '' ''
                               @ html_escape (http_path method) @ ''</code>'',
                             ''</div>'']
                       else [])
                    @ (case dict_get (messages P) (input_type method) of
                         Some input_message \<Rightarrow>
                           ''<h4>Request</h4>'' # generate_html_message_docs fs G input_message True
                       | None \<Rightarrow> [])
                    @ (case dict_get (messages P) (output_type method) of
                         Some output_message \<Rightarrow>
                           ''<h4>Response</h4>'' # generate_html_message_docs fs G output_message False
                       | None \<Rightarrow> [])
                    @ example
                    @ [''<div class="method-divider"></div>''])))\<close>

definition generate_html_service_docs ::
  "file_system \<Rightarrow> generator \<Rightarrow> proto_service \<Rightarrow> string list option" where
  \<open>generate_html_service_docs fs G service =
     Option.bind
       (fold_option (\<lambda>method doc.
                       Option.bind (generate_html_method_docs fs G method service)
                         (\<lambda>lines. Some (doc @ lines)))
                    (s_methods service) [])
       (\<lambda>methods_doc.
          Some ([''<div class="content-section">'',
                 ''<h2 id="'' @ lower (s_name service) @ ''">'' @ html_escape (s_name service) @ ''</h2>'']
                @ (if s_comment service \<noteq> ''''
                   then [''<p>'' @ html_escape (s_comment service) @ ''</p>''] else [])
                @ methods_doc
                @ [''</div>'']))\<close>

subsection \<open>Types appendix\<close>

definition type_comment :: "type_obj \<Rightarrow> string" where
  "type_comment obj = (case obj of Msg m \<Rightarrow> m_comment m | Enm e \<Rightarrow> e_comment e)"

definition type_field_row :: "file_system \<Rightarrow> generator \<Rightarrow> proto_field \<Rightarrow> string list" where
  \<open>type_field_row fs G field =
     (let field_type = (if f_label field = ''repeated''
                        then ''Array&lt;'' @ format_type fs G (f_type field) True @ ''&gt;''
                        else format_type fs G (f_type field) True)
      in [''<tr>'',
          ''<td><code>'' @ html_escape (f_name field) @ ''</code></td>'',
          ''<td>'' @ field_type @ ''</td>'',
          ''<td>'' @ description_of field @ ''</td>'',
          ''</tr>''])\<close>

text \<open>
  The rows of an enum: \<^verbatim>\<open>sorted(type_obj.values.items(), key=lambda x: x[1])\<close>, a stable
  sort by the number.
\<close>

definition enum_row :: "string \<times> int \<Rightarrow> string list" where
  \<open>enum_row entry =
     (case entry of (value_name, value_number) \<Rightarrow>
        [''<tr>'',
         ''<td><code>'' @ html_escape value_name @ ''</code></td>'',
         ''<td>'' @ str_of_int value_number @ ''</td>'',
         ''</tr>''])\<close>

definition enum_value_rows :: "proto_enum \<Rightarrow> string list" where
  "enum_value_rows e = concat (map enum_row (sort_key snd (e_values e)))"

definition type_body :: "file_system \<Rightarrow> generator \<Rightarrow> type_obj \<Rightarrow> string list" where
  \<open>type_body fs G obj =
     (case obj of
        Msg m \<Rightarrow>
          if m_fields m \<noteq> []
          then [''<table>'', ''<thead>'', ''<tr>'',
                ''<th>Field</th>'', ''<th>Type</th>'', ''<th>Description</th>'',
                ''</tr>'', ''</thead>'', ''<tbody>'']
               @ concat (map (type_field_row fs G) (filter (\<lambda>field. \<not> f_is_deprecated field) (m_fields m)))
               @ [''</tbody>'', ''</table>'']
          else [''<p>No fields defined.</p>'']
      | Enm e \<Rightarrow>
          if e_values e \<noteq> []
          then [''<p><strong>Enum Values:</strong></p>'',
                ''<table>'', ''<thead>'', ''<tr>'',
                ''<th>Name</th>'', ''<th>Value</th>'',
                ''</tr>'', ''</thead>'', ''<tbody>'']
               @ enum_value_rows e
               @ [''</tbody>'', ''</table>'']
          else [''<p>No enum values defined.</p>''])\<close>

definition type_entry :: "file_system \<Rightarrow> generator \<Rightarrow> string \<times> type_obj \<times> string \<Rightarrow> string list" where
  \<open>type_entry fs G entry =
     (case entry of (type_name, type_obj, package) \<Rightarrow>
        (let simple_name = split_last type_name;
             type_anchor = ''ref-'' @ lower simple_name
         in [''<div class="type-header">'',
             ''<h4 id="'' @ type_anchor @ ''">'' @ html_escape simple_name @ ''</h4>'',
             ''<button class="link-button" data-anchor="'' @ type_anchor
               @ ''" title="Copy link to this type">#</button>'',
             ''</div>'',
             ''<p><em>From package:</em> <code>'' @ package @ ''</code></p>'']
            @ (if type_comment type_obj \<noteq> ''''
               then [''<p>'' @ html_escape (type_comment type_obj) @ ''</p>''] else [])
            @ type_body fs G type_obj
            @ [''<div style="margin-bottom: 2rem;"></div>'']))\<close>

text \<open>
  The grouping by package of \<^verbatim>\<open>_generate_types_section\<close>: a dictionary from the package to
  the list of its types, in the order in which they are met.
\<close>

definition group_by_package ::
  "referenced_types \<Rightarrow> (string, (string \<times> type_obj) list) dict" where
  "group_by_package referenced_types =
     fold (\<lambda>(type_name, type_obj, package) by_package.
             dict_set package
               ((case dict_get by_package package of Some l \<Rightarrow> l | None \<Rightarrow> []) @ [(type_name, type_obj)])
               by_package)
          referenced_types []"

definition generate_flat_types_list ::
  "file_system \<Rightarrow> generator \<Rightarrow> (string, (string \<times> type_obj) list) dict \<Rightarrow> string list" where
  "generate_flat_types_list fs G by_package =
     (let all_types = dedup_simple []
                        (concat (map (\<lambda>(package, types).
                                        map (\<lambda>(type_name, type_obj). (type_name, type_obj, package)) types)
                                     by_package))
      in concat (map (type_entry fs G) (sort_key (\<lambda>x. split_last (fst x)) all_types)))"

definition generate_types_section :: "file_system \<Rightarrow> generator \<Rightarrow> string list" where
  \<open>generate_types_section fs G =
     (let referenced_types = fst (collect_referenced_types fs G)
      in if referenced_types = [] then []
         else [''<div class="content-section">'',
               ''<h2 id="types">Types</h2>'',
               ''<p>This section documents all types from external packages used in the CloudService API.</p>'']
              @ generate_flat_types_list fs G (group_by_package referenced_types)
              @ [''</div>''])\<close>

subsection \<open>The document\<close>

definition generate_html_lines :: "file_system \<Rightarrow> generator \<Rightarrow> string list option" where
  \<open>generate_html_lines fs G =
     (let html_head = load_template fs G ''html_head.html'';
          html_footer = load_template fs G ''html_footer.html'';
          javascript = load_template fs G ''scripts.js''
      in Option.bind (py_format html_head ''title'' ''Temporal Cloud Ops API Reference'')
           (\<lambda>head.
        Option.bind (fold_option (\<lambda>(service_name, service) doc.
                                    Option.bind (generate_html_service_docs fs G service)
                                      (\<lambda>lines. Some (doc @ lines)))
                                 (services (parser G)) [])
           (\<lambda>services_doc.
        Option.bind (py_format html_footer ''javascript'' javascript)
           (\<lambda>footer.
              Some ([head, generate_sidebar fs G,
                     ''<main class="main-content">'',
                     ''<div class="content-section">'',
                     ''<h1>Temporal Cloud Ops API Reference</h1>'',
                     ''</div>'']
                    @ services_doc
                    @ generate_types_section fs G
                    @ [footer])))))\<close>

definition generate_html :: "file_system \<Rightarrow> generator \<Rightarrow> string option" where
  "generate_html fs G = map_option (join [newline]) (generate_html_lines fs G)"



text \<open>A method bound to \<^verbatim>\<open>get: "/v1/items/{id}"\<close>, as in Scenario 2 of the specification.\<close>

definition get_item_method :: proto_method where
  "get_item_method =
     \<lparr>md_name = ''GetItem'', input_type = ''GetItemRequest'', output_type = ''Item'',
      md_comment = '''', http_method = ''GET'', http_path = ''/v1/items/{id}'', http_body = ''''\<rparr>"

text \<open>
  A registry whose one method names an input and an output type that no file declares, and a
  generator for it.
\<close>

definition orphan_method :: proto_method where
  "orphan_method =
     \<lparr>md_name = ''Ping'', input_type = ''PingRequest'', output_type = ''PingReply'',
      md_comment = '''', http_method = ''POST'', http_path = ''/v1/ping'', http_body = ''''\<rparr>"

definition orphan_service :: proto_service where
  "orphan_service = \<lparr>s_name = ''Pinger'', s_methods = [orphan_method], s_comment = '''',
                       s_source_file = Some ''demo/ping.proto''\<rparr>"

definition orphan_generator :: generator where
  "orphan_generator =
     \<lparr>parser = empty_parser\<lparr>services := [(''Pinger'', orphan_service)],
                                packages := [(''demo/ping.proto'', ''demo'')]\<rparr>,
      template_dir = ''templates'', referenced_types_cache = None\<rparr>"

text \<open>A list of lines without the two section headings of a method.\<close>

definition no_heading :: "string list \<Rightarrow> bool" where
  "no_heading ls = (''<h4>Request</h4>'' \<notin> set ls \<and> ''<h4>Response</h4>'' \<notin> set ls)"

section \<open>Properties of the delimiter matcher\<close>

lemma scan_braces_found:
  "1 \<le> c \<Longrightarrow> n < length cs \<Longrightarrow>
   c + sum_list (map brace_delta (take (Suc n) cs)) = 0 \<Longrightarrow>
   (\<forall>m<n. c + sum_list (map brace_delta (take (Suc m) cs)) \<noteq> 0) \<Longrightarrow>
   scan_braces cs i c = i + int n"
proof (induction cs arbitrary: c n i)
  case Nil
  then show ?case by simp
next
  case (Cons x xs)
  show ?case
  proof (cases n)
    case 0
    with Cons.prems show ?thesis
      by (auto simp: brace_delta_def split: if_splits)
  next
    case (Suc k)
    from Cons.prems(4) Suc have first: "c + brace_delta x \<noteq> 0"
      by (auto dest: spec [of _ 0])
    have rest: "\<forall>m<k. (c + brace_delta x) + sum_list (map brace_delta (take (Suc m) xs)) \<noteq> 0"
    proof (intro allI impI)
      fix m assume "m < k"
      then have "Suc m < n" using Suc by simp
      with Cons.prems(4) have "c + sum_list (map brace_delta (take (Suc (Suc m)) (x # xs))) \<noteq> 0"
        by blast
      then show "(c + brace_delta x) + sum_list (map brace_delta (take (Suc m) xs)) \<noteq> 0"
        by (simp add: add.assoc)
    qed
    have pos: "1 \<le> c + brace_delta x"
      using Cons.prems(1) first by (auto simp: brace_delta_def split: if_splits)
    have zero: "(c + brace_delta x) + sum_list (map brace_delta (take (Suc k) xs)) = 0"
      using Cons.prems(3) Suc by (simp add: add.assoc)
    have klen: "k < length xs" using Cons.prems(2) Suc by simp
    have "scan_braces xs (i + 1) (c + brace_delta x) = (i + 1) + int k"
      by (rule Cons.IH [OF pos klen zero rest])
    then show ?thesis
      using first Suc by (auto simp: brace_delta_def split: if_splits)
  qed
qed

lemma scan_braces_not_found:
  "1 \<le> c \<Longrightarrow>
   (\<forall>m<length cs. c + sum_list (map brace_delta (take (Suc m) cs)) \<noteq> 0) \<Longrightarrow>
   scan_braces cs i c = - 1"
proof (induction cs arbitrary: c i)
  case Nil
  then show ?case by simp
next
  case (Cons x xs)
  from Cons.prems(2) have first: "c + brace_delta x \<noteq> 0"
    by (auto dest: spec [of _ 0])
  have pos: "1 \<le> c + brace_delta x"
    using Cons.prems(1) first by (auto simp: brace_delta_def split: if_splits)
  have rest: "\<forall>m<length xs. (c + brace_delta x) + sum_list (map brace_delta (take (Suc m) xs)) \<noteq> 0"
  proof (intro allI impI)
    fix m assume "m < length xs"
    then have "Suc m < length (x # xs)" by simp
    with Cons.prems(2) have "c + sum_list (map brace_delta (take (Suc (Suc m)) (x # xs))) \<noteq> 0"
      by blast
    then show "(c + brace_delta x) + sum_list (map brace_delta (take (Suc m) xs)) \<noteq> 0"
      by (simp add: add.assoc)
  qed
  have "scan_braces xs (i + 1) (c + brace_delta x) = - 1"
    by (rule Cons.IH [OF pos rest])
  then show ?case
    using first by (auto simp: brace_delta_def split: if_splits)
qed

lemma scan_braces_closing:
  "0 \<le> i \<Longrightarrow> scan_braces cs i c \<noteq> - 1 \<Longrightarrow>
   \<exists>n<length cs. scan_braces cs i c = i + int n \<and> cs ! n = CHR ''}''"
proof (induction cs arbitrary: i c)
  case Nil
  then show ?case by simp
next
  case (Cons x xs)
  show ?case
  proof (cases "x = CHR ''}'' \<and> c - 1 = 0")
    case True
    then have "scan_braces (x # xs) i c = i + int 0 \<and> (x # xs) ! 0 = CHR ''}''"
      by simp
    then show ?thesis by blast
  next
    case False
    then obtain c' where step: "scan_braces (x # xs) i c = scan_braces xs (i + 1) c'"
      by (cases "x = CHR ''{''"; cases "x = CHR ''}''") auto
    with Cons.prems have "scan_braces xs (i + 1) c' \<noteq> - 1" and "0 \<le> i + 1"
      by simp_all
    from Cons.IH [OF this(2) this(1)]
    obtain n where "n < length xs" "scan_braces xs (i + 1) c' = i + 1 + int n" "xs ! n = CHR ''}''"
      by blast
    then have "Suc n < length (x # xs) \<and> scan_braces (x # xs) i c = i + int (Suc n)
               \<and> (x # xs) ! Suc n = CHR ''}''"
      using step by simp
    then show ?thesis by blast
  qed
qed

lemma find_matching_brace_unfold:
  assumes "s < length content" and "content ! s = CHR ''{''"
  shows "find_matching_brace content (int s) = scan_braces (drop (Suc s) content) (int s + 1) 1"
proof -
  have "drop s content = content ! s # drop (Suc s) content"
    using assms(1) by (simp add: Cons_nth_drop_Suc)
  then show ?thesis
    using assms(2) by (simp add: find_matching_brace_def py_slice_from_def)
qed

lemma brace_depth_shift:
  assumes "s < length content" and "content ! s = CHR ''{''"
  shows "brace_depth content s (Suc s + m)
         = 1 + sum_list (map brace_delta (take (Suc m) (drop (Suc s) content)))"
proof -
  have "drop s content = content ! s # drop (Suc s) content"
    using assms(1) by (simp add: Cons_nth_drop_Suc)
  then show ?thesis
    using assms(2) by (simp add: brace_depth_def brace_delta_def)
qed

text \<open>
  Claim C1. Started at an opening brace, \<^verbatim>\<open>_find_matching_brace\<close> returns the index of
  the matching closing brace, that is the first position at which the depth counter is back
  at zero, and a closing brace stands there; if the depth never returns to zero before the
  text ends, it returns the sentinel \<open>-1\<close>.
\<close>

theorem find_matching_brace_correct:
  assumes "s < length content" and "content ! s = CHR ''{''"
  shows "(\<forall>j. s < j \<and> j < length content \<and> brace_depth content s j = 0
              \<and> (\<forall>k. s \<le> k \<and> k < j \<longrightarrow> brace_depth content s k \<noteq> 0)
            \<longrightarrow> find_matching_brace content (int s) = int j \<and> content ! j = CHR ''}'')
       \<and> ((\<forall>j. s \<le> j \<and> j < length content \<longrightarrow> brace_depth content s j \<noteq> 0)
            \<longrightarrow> find_matching_brace content (int s) = - 1)"
proof (intro conjI allI impI)
  fix j
  assume H: "s < j \<and> j < length content \<and> brace_depth content s j = 0
             \<and> (\<forall>k. s \<le> k \<and> k < j \<longrightarrow> brace_depth content s k \<noteq> 0)"
  define n where "n = j - Suc s"
  have j: "j = Suc s + n" using H by (simp add: n_def)
  let ?cs = "drop (Suc s) content"
  have len: "n < length ?cs" using H j by auto
  have zero: "1 + sum_list (map brace_delta (take (Suc n) ?cs)) = 0"
    using H brace_depth_shift [OF assms, of n] j by simp
  have before: "\<forall>m<n. 1 + sum_list (map brace_delta (take (Suc m) ?cs)) \<noteq> 0"
  proof (intro allI impI)
    fix m assume "m < n"
    then have "s \<le> Suc s + m \<and> Suc s + m < j" using j by simp
    with H have "brace_depth content s (Suc s + m) \<noteq> 0" by blast
    then show "1 + sum_list (map brace_delta (take (Suc m) ?cs)) \<noteq> 0"
      using brace_depth_shift [OF assms, of m] by simp
  qed
  have "scan_braces ?cs (int s + 1) 1 = int s + 1 + int n"
    by (rule scan_braces_found [OF _ len zero before]) simp
  then show r: "find_matching_brace content (int s) = int j"
    using find_matching_brace_unfold [OF assms] j by simp
  have "scan_braces ?cs (int s + 1) 1 \<noteq> - 1"
    using \<open>scan_braces ?cs (int s + 1) 1 = int s + 1 + int n\<close> by simp
  from scan_braces_closing [OF _ this]
  obtain n' where "n' < length ?cs" "scan_braces ?cs (int s + 1) 1 = int s + 1 + int n'"
    "?cs ! n' = CHR ''}''"
    by auto
  with \<open>scan_braces ?cs (int s + 1) 1 = int s + 1 + int n\<close> have "?cs ! n = CHR ''}''"
    by simp
  then show "content ! j = CHR ''}''"
    using j H by (simp add: add.commute)
next
  assume H: "\<forall>j. s \<le> j \<and> j < length content \<longrightarrow> brace_depth content s j \<noteq> 0"
  let ?cs = "drop (Suc s) content"
  have never: "\<forall>m<length ?cs. 1 + sum_list (map brace_delta (take (Suc m) ?cs)) \<noteq> 0"
  proof (intro allI impI)
    fix m assume "m < length ?cs"
    then have "s \<le> Suc s + m \<and> Suc s + m < length content" by simp
    with H have "brace_depth content s (Suc s + m) \<noteq> 0" by blast
    then show "1 + sum_list (map brace_delta (take (Suc m) ?cs)) \<noteq> 0"
      using brace_depth_shift [OF assms, of m] by simp
  qed
  have "scan_braces ?cs (int s + 1) 1 = - 1"
    by (rule scan_braces_not_found [OF _ never]) simp
  then show "find_matching_brace content (int s) = - 1"
    using find_matching_brace_unfold [OF assms] by simp
qed

theorem find_matching_brace_correct_witness:
  "find_matching_brace ''a{b{c}d}e{'' 1 = 7 \<and> ''a{b{c}d}e{'' ! 7 = CHR ''}''
   \<and> find_matching_brace ''a{b{c}d}e{'' 9 = - 1"
proof -
  let ?t = "''a{b{c}d}e{''"
  have a: "(1::nat) < length ?t" "?t ! 1 = CHR ''{''" by simp_all
  have b: "(9::nat) < length ?t" "?t ! 9 = CHR ''{''" by simp_all
  have k: "\<forall>k. 1 \<le> k \<and> k < 7 \<longrightarrow> brace_depth ?t 1 k \<noteq> 0"
  proof (intro allI impI)
    fix k :: nat assume "1 \<le> k \<and> k < 7"
    then have "k \<in> {1, 2, 3, 4, 5, 6}" by auto
    then show "brace_depth ?t 1 k \<noteq> 0"
      by (auto simp: brace_depth_def brace_delta_def)
  qed
  have k9: "\<forall>j. 9 \<le> j \<and> j < length ?t \<longrightarrow> brace_depth ?t 9 j \<noteq> 0"
  proof (intro allI impI)
    fix j :: nat assume "9 \<le> j \<and> j < length ?t"
    then have "j = 9" by simp
    then show "brace_depth ?t 9 j \<noteq> 0"
      by (simp add: brace_depth_def brace_delta_def)
  qed
  have z: "brace_depth ?t 1 7 = 0"
    by (simp add: brace_depth_def brace_delta_def)
  have pre: "(1::nat) < 7 \<and> 7 < length ?t \<and> brace_depth ?t 1 7 = 0
             \<and> (\<forall>k. 1 \<le> k \<and> k < 7 \<longrightarrow> brace_depth ?t 1 k \<noteq> 0)"
    using z k by simp
  from find_matching_brace_correct [OF a, THEN conjunct1, THEN spec, of 7, THEN mp, OF pre]
  have "find_matching_brace ?t (int 1) = int 7 \<and> ?t ! 7 = CHR ''}''" .
  moreover from find_matching_brace_correct [OF b, THEN conjunct2, THEN mp, OF k9]
  have "find_matching_brace ?t (int 9) = - 1" .
  ultimately show ?thesis by simp
qed

section \<open>Properties of dictionaries\<close>

lemma set_dict_set:
  "(k', v') \<in> set (dict_set k v d) \<Longrightarrow> (k', v') = (k, v) \<or> (k', v') \<in> set d"
  by (induction d) (auto split: if_splits)

lemma keys_dict_set: "fst ` set (dict_set k v d) = insert k (fst ` set d)"
  by (induction d) force+

lemma map_fst_dict_set:
  "map fst (dict_set k v d) = (if k \<in> fst ` set d then map fst d else map fst d @ [k])"
  by (induction d) (force split: if_splits)+

lemma unique_keys_dict_set: "unique_keys d \<Longrightarrow> unique_keys (dict_set k v d)"
  by (simp add: unique_keys_def map_fst_dict_set)

lemma map_of_dict_set: "map_of (dict_set k v d) = (map_of d)(k \<mapsto> v)"
  by (induction d) (auto simp: fun_eq_iff)

lemma unique_keys_map_of: "unique_keys d \<Longrightarrow> (map_of d k = Some v) = ((k, v) \<in> set d)"
  by (simp add: unique_keys_def)

lemma set_dict_update:
  "(k, v) \<in> set (dict_update d other) \<Longrightarrow> (k, v) \<in> set d \<or> (k, v) \<in> set other"
  unfolding dict_update_def
  by (induction other arbitrary: d) (auto dest: set_dict_set)

lemma keys_dict_update: "fst ` set (dict_update d other) = fst ` set d \<union> fst ` set other"
  unfolding dict_update_def
proof (induction other arbitrary: d)
  case Nil
  then show ?case by simp
next
  case (Cons e other)
  obtain k v where e: "e = (k, v)" by (cases e)
  show ?case unfolding e by (simp add: Cons.IH keys_dict_set)
qed

lemma unique_keys_dict_update: "unique_keys d \<Longrightarrow> unique_keys (dict_update d other)"
  unfolding dict_update_def
  by (induction other arbitrary: d) (auto simp: unique_keys_dict_set)

section \<open>Properties of the qualification resolver\<close>

lemma set_qualify_entries:
  "(k, v) \<in> set (qualify_entries src f p es q) \<Longrightarrow>
   (k, v) \<in> set q \<or> (\<exists>mn. (mn, v) \<in> set es \<and> src v = Some f \<and> (k = mn \<or> k = p @ ''.'' @ mn))"
  unfolding qualify_entries_def
proof (induction es arbitrary: q)
  case Nil
  then show ?case by simp
next
  case (Cons e es)
  obtain mn m where e: "e = (mn, m)" by (cases e)
  show ?case
  proof (cases "src m = Some f")
    case True
    with Cons.prems e have "(k, v) \<in> set (fold (\<lambda>(msg_name, msg) q.
             if src msg = Some f
             then dict_set msg_name msg (dict_set (p @ ''.'' @ msg_name) msg q)
             else q) es (dict_set mn m (dict_set (p @ ''.'' @ mn) m q)))" by simp
    from Cons.IH [OF this] show ?thesis
      using True e by (auto dest!: set_dict_set)
  next
    case False
    with Cons.prems e Cons.IH [of q] show ?thesis by auto
  qed
qed

lemma keys_qualify_entries:
  "fst ` set (qualify_entries src f p es q) =
   fst ` set q \<union> {k. \<exists>mn v. (mn, v) \<in> set es \<and> src v = Some f \<and> (k = mn \<or> k = p @ ''.'' @ mn)}"
  unfolding qualify_entries_def
proof (induction es arbitrary: q)
  case Nil
  then show ?case by simp
next
  case (Cons e es)
  obtain mn m where e: "e = (mn, m)" by (cases e)
  show ?case
    unfolding e by (simp add: Cons.IH keys_dict_set) blast
qed

lemma takeWhile_stop: "\<not> P c \<Longrightarrow> takeWhile P (xs @ c # ys) = takeWhile P xs"
  by (induction xs) auto

lemma split_last_qualified: "split_last (p @ CHR ''.'' # k) = split_last k"
  by (simp add: split_last_def takeWhile_stop)

lemma set_qualified_fold:
  "(k, v) \<in> set (fold (\<lambda>(f, p) q. qualify_entries src f p d q) pkgs q0) \<Longrightarrow>
   (k, v) \<in> set q0 \<or>
   (\<exists>f p mn. (f, p) \<in> set pkgs \<and> (mn, v) \<in> set d \<and> src v = Some f
              \<and> (k = mn \<or> k = p @ ''.'' @ mn))"
proof (induction pkgs arbitrary: q0)
  case Nil
  then show ?case by simp
next
  case (Cons e pkgs)
  obtain f p where e: "e = (f, p)" by (cases e)
  from Cons.prems e
  have "(k, v) \<in> set (fold (\<lambda>(f, p) q. qualify_entries src f p d q) pkgs
                        (qualify_entries src f p d q0))"
    by simp
  from Cons.IH [OF this] show ?case
  proof
    assume "(k, v) \<in> set (qualify_entries src f p d q0)"
    from set_qualify_entries [OF this] show ?thesis
      using e by auto
  next
    assume "\<exists>f p mn. (f, p) \<in> set pkgs \<and> (mn, v) \<in> set d \<and> src v = Some f
              \<and> (k = mn \<or> k = p @ ''.'' @ mn)"
    then show ?thesis by auto
  qed
qed

lemma keys_qualified_fold:
  "fst ` set (fold (\<lambda>(f, p) q. qualify_entries src f p d q) pkgs q0) =
   fst ` set q0 \<union>
   {k. \<exists>f p mn v. (f, p) \<in> set pkgs \<and> (mn, v) \<in> set d \<and> src v = Some f
              \<and> (k = mn \<or> k = p @ ''.'' @ mn)}"
proof (induction pkgs arbitrary: q0)
  case Nil
  then show ?case by simp
next
  case (Cons e pkgs)
  obtain f p where e: "e = (f, p)" by (cases e)
  show ?case
    unfolding e by (simp add: Cons.IH keys_qualify_entries) blast
qed

lemma qualify_dict_entries:
  assumes J: "simple_name_consistent d"
    and mem: "(k, v) \<in> set (qualify_dict src pkgs d)"
  shows "(split_last k, v) \<in> set d"
proof -
  from mem have "(k, v) \<in> set d \<or>
      (k, v) \<in> set (fold (\<lambda>(f, p) q. qualify_entries src f p d q) pkgs [])"
    unfolding qualify_dict_def by (rule set_dict_update)
  then show ?thesis
  proof
    assume "(k, v) \<in> set d"
    with J show ?thesis by (auto simp: simple_name_consistent_def)
  next
    assume "(k, v) \<in> set (fold (\<lambda>(f, p) q. qualify_entries src f p d q) pkgs [])"
    from set_qualified_fold [OF this]
    obtain p mn where mn: "(mn, v) \<in> set d" "k = mn \<or> k = p @ ''.'' @ mn"
      by auto
    from J mn(1) have "(split_last mn, v) \<in> set d"
      by (auto simp: simple_name_consistent_def)
    with mn(2) show ?thesis by (auto simp: split_last_qualified)
  qed
qed

lemma qualify_dict_keys:
  "fst ` set (qualify_dict src pkgs d) =
   fst ` set d \<union> {p @ ''.'' @ k | k p f v. (k, v) \<in> set d \<and> src v = Some f \<and> (f, p) \<in> set pkgs}"
  unfolding qualify_dict_def keys_dict_update keys_qualified_fold
  by (auto simp: image_iff) (metis fst_conv)+

lemma unique_keys_qualify_dict: "unique_keys d \<Longrightarrow> unique_keys (qualify_dict src pkgs d)"
  unfolding qualify_dict_def by (rule unique_keys_dict_update)

lemma unique_keys_same: "unique_keys d \<Longrightarrow> (k, v) \<in> set d \<Longrightarrow> (k, v') \<in> set d \<Longrightarrow> v = v'"
  by (metis unique_keys_map_of option.inject)

lemma qualify_dict_keeps:
  assumes U: "unique_keys d" and J: "simple_name_consistent d" and mem: "(k, v) \<in> set d"
  shows "(k, v) \<in> set (qualify_dict src pkgs d)"
proof -
  from mem have "k \<in> fst ` set (qualify_dict src pkgs d)"
    unfolding qualify_dict_keys by force
  then obtain v' where v': "(k, v') \<in> set (qualify_dict src pkgs d)" by auto
  from qualify_dict_entries [OF J v'] have "(split_last k, v') \<in> set d" .
  moreover from J mem have "(split_last k, v) \<in> set d"
    by (auto simp: simple_name_consistent_def)
  ultimately have "v' = v" using unique_keys_same [OF U] by blast
  with v' show ?thesis by simp
qed

lemma qualify_dict_new:
  assumes U: "unique_keys d" and J: "simple_name_consistent d" and mem: "(k, v) \<in> set d"
    and src: "src v = Some f" and pkg: "(f, p) \<in> set pkgs"
  shows "(p @ ''.'' @ k, v) \<in> set (qualify_dict src pkgs d)"
proof -
  from mem src pkg have "p @ ''.'' @ k \<in> fst ` set (qualify_dict src pkgs d)"
    unfolding qualify_dict_keys by blast
  then obtain v' where v': "(p @ ''.'' @ k, v') \<in> set (qualify_dict src pkgs d)" by auto
  from qualify_dict_entries [OF J v'] have "(split_last k, v') \<in> set d"
    by (simp add: split_last_qualified)
  moreover from J mem have "(split_last k, v) \<in> set d"
    by (auto simp: simple_name_consistent_def)
  ultimately have "v' = v" using unique_keys_same [OF U] by blast
  with v' show ?thesis by simp
qed

lemma simple_name_consistent_qualify_dict:
  assumes U: "unique_keys d" and J: "simple_name_consistent d"
  shows "simple_name_consistent (qualify_dict src pkgs d)"
  unfolding simple_name_consistent_def
proof clarify
  fix k v assume "(k, v) \<in> set (qualify_dict src pkgs d)"
  from qualify_dict_entries [OF J this] have "(split_last k, v) \<in> set d" .
  then show "(split_last k, v) \<in> set (qualify_dict src pkgs d)"
    by (rule qualify_dict_keeps [OF U J])
qed

lemma fold_pair_split:
  "fold (\<lambda>(f, p) (qm, qe). (A f p qm, B f p qe)) pkgs (qm0, qe0)
   = (fold (\<lambda>(f, p) q. A f p q) pkgs qm0, fold (\<lambda>(f, p) q. B f p q) pkgs qe0)"
  by (induction pkgs arbitrary: qm0 qe0) auto

lemma build_qualified_names_dicts:
  "build_qualified_names P =
     P\<lparr>messages := qualify_dict m_source_file (packages P) (messages P),
       enums := qualify_dict e_source_file (packages P) (enums P)\<rparr>"
  by (simp add: build_qualified_names_def fold_pair_split qualify_dict_def)

lemma dict_get_unique: "unique_keys d \<Longrightarrow> (dict_get d k = Some v) = ((k, v) \<in> set d)"
  by (simp add: dict_get_def unique_keys_map_of)

lemma qualify_dict_rerun:
  assumes U: "unique_keys d" and J: "simple_name_consistent d"
  shows "(\<forall>k v. dict_get (qualify_dict src pkgs d) k = Some v
              \<longrightarrow> dict_get (qualify_dict src pkgs (qualify_dict src pkgs d)) k = Some v)
       \<and> fst ` set (qualify_dict src pkgs (qualify_dict src pkgs d))
           = fst ` set (qualify_dict src pkgs d)
             \<union> {p @ ''.'' @ k | k p f v. (k, v) \<in> set (qualify_dict src pkgs d)
                                     \<and> src v = Some f \<and> (f, p) \<in> set pkgs}
       \<and> (\<forall>k p f v. (k, v) \<in> set (qualify_dict src pkgs d) \<and> src v = Some f \<and> (f, p) \<in> set pkgs
              \<longrightarrow> dict_get (qualify_dict src pkgs (qualify_dict src pkgs d)) (p @ ''.'' @ k) = Some v)"
proof -
  let ?d1 = "qualify_dict src pkgs d"
  let ?d2 = "qualify_dict src pkgs ?d1"
  have U1: "unique_keys ?d1" using U by (rule unique_keys_qualify_dict)
  have J1: "simple_name_consistent ?d1" using U J by (rule simple_name_consistent_qualify_dict)
  have U2: "unique_keys ?d2" using U1 by (rule unique_keys_qualify_dict)
  have a: "\<forall>k v. dict_get ?d1 k = Some v \<longrightarrow> dict_get ?d2 k = Some v"
    using qualify_dict_keeps [OF U1 J1] by (simp add: dict_get_unique U1 U2)
  have b: "fst ` set ?d2 = fst ` set ?d1
             \<union> {p @ ''.'' @ k | k p f v. (k, v) \<in> set ?d1 \<and> src v = Some f \<and> (f, p) \<in> set pkgs}"
    by (rule qualify_dict_keys)
  have c: "\<forall>k p f v. (k, v) \<in> set ?d1 \<and> src v = Some f \<and> (f, p) \<in> set pkgs
              \<longrightarrow> dict_get ?d2 (p @ ''.'' @ k) = Some v"
    using qualify_dict_new [OF U1 J1] by (simp add: dict_get_unique U2)
  show ?thesis by (rule conjI [OF a conjI [OF b c]])
qed

text \<open>
  Claim C2, as amended. On a registry whose dictionaries have unique keys and bind every key
  to the entity of its simple name (what ingestion and the built-in types produce), running
  \<^verbatim>\<open>_build_qualified_names\<close> a second time keeps every key of the first run with its binding,
  but it is not the identity: for every key \<open>k\<close> of the first run whose entity comes from a file
  with package \<open>p\<close>, also for the keys that are qualified already, the second run has the key
  \<open>p.k\<close>, bound to that same entity, and these are the only new keys.
\<close>

theorem build_qualified_names_rerun:
  assumes "unique_keys (messages P)" and "simple_name_consistent (messages P)"
    and "unique_keys (enums P)" and "simple_name_consistent (enums P)"
  shows "(\<forall>k v. dict_get (messages (build_qualified_names P)) k = Some v
            \<longrightarrow> dict_get (messages (build_qualified_names (build_qualified_names P))) k = Some v)
       \<and> fst ` set (messages (build_qualified_names (build_qualified_names P)))
           = fst ` set (messages (build_qualified_names P))
             \<union> {p @ ''.'' @ k | k p f v. (k, v) \<in> set (messages (build_qualified_names P))
                                     \<and> m_source_file v = Some f \<and> (f, p) \<in> set (packages P)}
       \<and> (\<forall>k p f v. (k, v) \<in> set (messages (build_qualified_names P))
                     \<and> m_source_file v = Some f \<and> (f, p) \<in> set (packages P)
            \<longrightarrow> dict_get (messages (build_qualified_names (build_qualified_names P))) (p @ ''.'' @ k)
                = Some v)
       \<and> (\<forall>k v. dict_get (enums (build_qualified_names P)) k = Some v
            \<longrightarrow> dict_get (enums (build_qualified_names (build_qualified_names P))) k = Some v)
       \<and> fst ` set (enums (build_qualified_names (build_qualified_names P)))
           = fst ` set (enums (build_qualified_names P))
             \<union> {p @ ''.'' @ k | k p f v. (k, v) \<in> set (enums (build_qualified_names P))
                                     \<and> e_source_file v = Some f \<and> (f, p) \<in> set (packages P)}
       \<and> (\<forall>k p f v. (k, v) \<in> set (enums (build_qualified_names P))
                     \<and> e_source_file v = Some f \<and> (f, p) \<in> set (packages P)
            \<longrightarrow> dict_get (enums (build_qualified_names (build_qualified_names P))) (p @ ''.'' @ k)
                = Some v)"
proof -
  have m: "messages (build_qualified_names P) = qualify_dict m_source_file (packages P) (messages P)"
    and e: "enums (build_qualified_names P) = qualify_dict e_source_file (packages P) (enums P)"
    and p: "packages (build_qualified_names P) = packages P"
    by (simp_all add: build_qualified_names_dicts)
  have m2: "messages (build_qualified_names (build_qualified_names P))
            = qualify_dict m_source_file (packages P)
                (qualify_dict m_source_file (packages P) (messages P))"
    by (subst build_qualified_names_dicts) (simp add: m p)
  have e2: "enums (build_qualified_names (build_qualified_names P))
            = qualify_dict e_source_file (packages P)
                (qualify_dict e_source_file (packages P) (enums P))"
    by (subst build_qualified_names_dicts) (simp add: e p)
  note M = qualify_dict_rerun [OF assms(1,2), of m_source_file "packages P"]
  note E = qualify_dict_rerun [OF assms(3,4), of e_source_file "packages P"]
  show ?thesis
    unfolding m2 e2 m e
    by (intro conjI M [THEN conjunct1] M [THEN conjunct2, THEN conjunct1]
        M [THEN conjunct2, THEN conjunct2] E [THEN conjunct1] E [THEN conjunct2, THEN conjunct1]
        E [THEN conjunct2, THEN conjunct2])
qed

lemma demo_once:
  "messages (build_qualified_names demo_registry) = [(''M'', demo_message), (''demo.M'', demo_message)]"
  by (simp add: build_qualified_names_def demo_registry_def qualify_entries_def dict_update_def
      demo_message_def)

lemma demo_twice:
  "messages (build_qualified_names (build_qualified_names demo_registry))
   = [(''M'', demo_message), (''demo.M'', demo_message), (''demo.demo.M'', demo_message)]"
  by (simp add: build_qualified_names_def demo_registry_def qualify_entries_def dict_update_def
      demo_message_def)

theorem build_qualified_names_rerun_witness:
  "unique_keys (messages demo_registry) \<and> simple_name_consistent (messages demo_registry)
   \<and> unique_keys (enums demo_registry) \<and> simple_name_consistent (enums demo_registry)
   \<and> dict_get (messages (build_qualified_names (build_qualified_names demo_registry))) ''demo.M''
       = Some demo_message
   \<and> dict_get (messages (build_qualified_names (build_qualified_names demo_registry))) ''demo.demo.M''
       = Some demo_message"
proof -
  have h: "unique_keys (messages demo_registry)" "simple_name_consistent (messages demo_registry)"
    "unique_keys (enums demo_registry)" "simple_name_consistent (enums demo_registry)"
    by (simp_all add: demo_registry_def unique_keys_def simple_name_consistent_def split_last_def)
  have g: "dict_get (messages (build_qualified_names demo_registry)) ''demo.M'' = Some demo_message"
    by (simp add: demo_once dict_get_def)
  have s: "(''demo.M'', demo_message) \<in> set (messages (build_qualified_names demo_registry))
           \<and> m_source_file demo_message = Some ''a.proto''
           \<and> (''a.proto'', ''demo'') \<in> set (packages demo_registry)"
    by (simp add: demo_once) (simp add: demo_message_def demo_registry_def)
  note t = build_qualified_names_rerun [OF h]
  have "dict_get (messages (build_qualified_names (build_qualified_names demo_registry))) ''demo.M''
       = Some demo_message"
    by (rule t [THEN conjunct1, THEN spec, THEN spec, THEN mp, OF g])
  moreover have "dict_get (messages (build_qualified_names (build_qualified_names demo_registry)))
       (''demo'' @ ''.'' @ ''demo.M'') = Some demo_message"
    by (rule t [THEN conjunct2, THEN conjunct2, THEN conjunct1, THEN spec, THEN spec, THEN spec,
          THEN spec, THEN mp, OF s])
  ultimately show ?thesis using h by simp
qed

text \<open>
  The claim as stated fails: on the registry with the one message \<^verbatim>\<open>M\<close> of package \<^verbatim>\<open>demo\<close>
  the second run adds the key \<^verbatim>\<open>demo.demo.M\<close>, so the key sets of the two runs differ.
\<close>

theorem build_qualified_names_not_idempotent:
  "fst ` set (messages (build_qualified_names (build_qualified_names demo_registry)))
   \<noteq> fst ` set (messages (build_qualified_names demo_registry))"
proof -
  have "''demo.demo.M'' \<in> fst ` set (messages (build_qualified_names (build_qualified_names demo_registry)))"
    by (simp add: demo_twice)
  moreover have "''demo.demo.M'' \<notin> fst ` set (messages (build_qualified_names demo_registry))"
    by (simp add: demo_once)
  ultimately show ?thesis by metis
qed

section \<open>Properties of the schema extractor\<close>

lemma startswith_iff: "startswith s p \<longleftrightarrow> (\<exists>post. s = p @ post)"
proof
  assume "startswith s p"
  then have "s = p @ drop (length p) s"
    by (metis append_take_drop_id startswith_def)
  then show "\<exists>post. s = p @ post" ..
next
  assume "\<exists>post. s = p @ post"
  then show "startswith s p" by (auto simp: startswith_def)
qed

lemma contains_iff: "contains s sub \<longleftrightarrow> (\<exists>pre post. s = pre @ sub @ post)"
proof (induction s)
  case Nil
  show ?case by auto
next
  case (Cons c cs)
  show ?case
  proof
    assume "contains (c # cs) sub"
    then consider "startswith (c # cs) sub" | "contains cs sub" by auto
    then show "\<exists>pre post. c # cs = pre @ sub @ post"
    proof cases
      case 1
      then obtain post where "c # cs = [] @ sub @ post" by (auto simp: startswith_iff)
      then show ?thesis by blast
    next
      case 2
      with Cons.IH obtain pre post where "cs = pre @ sub @ post" by blast
      then have "c # cs = (c # pre) @ sub @ post" by simp
      then show ?thesis by blast
    qed
  next
    assume "\<exists>pre post. c # cs = pre @ sub @ post"
    then obtain pre post where eq: "c # cs = pre @ sub @ post" by blast
    show "contains (c # cs) sub"
    proof (cases pre)
      case Nil
      with eq have "startswith (c # cs) sub" by (auto simp: startswith_iff)
      then show ?thesis by simp
    next
      case (Cons x pre')
      with eq have "cs = pre' @ sub @ post" by simp
      with Cons.IH have "contains cs sub" by blast
      then show ?thesis by simp
    qed
  qed
qed

text \<open>
  Claim C10. A parsed field is deprecated exactly when its bracketed options text (group 5 of
  the field pattern, empty when there are no brackets), lowercased, has the substring
  \<^verbatim>\<open>deprecated = true\<close>. The spellings \<^verbatim>\<open>deprecated=true\<close> and \<^verbatim>\<open>deprecated =true\<close> leave the
  field active; upper case and other options around the marker do not matter.
\<close>

theorem parse_field_deprecated:
  "(f_is_deprecated (parse_field field_match)
      \<longleftrightarrow> (\<exists>pre post. lower (group_or_empty field_match 5) = pre @ ''deprecated = true'' @ post))
   \<and> map (\<lambda>f. (f_name f, f_is_deprecated f))
        (map parse_field (re_finditer field_pattern
           ''string a = 1 [deprecated = true]; string b = 2 [deprecated=true]; string c = 3 [deprecated =true]; string d = 4 [json_name = x, DEPRECATED = True]; string e = 5;''))
      = [(''a'', True), (''b'', False), (''c'', False), (''d'', True), (''e'', False)]"
proof
  show "f_is_deprecated (parse_field field_match)
      \<longleftrightarrow> (\<exists>pre post. lower (group_or_empty field_match 5) = pre @ ''deprecated = true'' @ post)"
    by (simp add: parse_field_def Let_def contains_iff)
  show "map (\<lambda>f. (f_name f, f_is_deprecated f))
        (map parse_field (re_finditer field_pattern
           ''string a = 1 [deprecated = true]; string b = 2 [deprecated=true]; string c = 3 [deprecated =true]; string d = 4 [json_name = x, DEPRECATED = True]; string e = 5;''))
      = [(''a'', True), (''b'', False), (''c'', False), (''d'', True), (''e'', False)]"
    by code_simp
qed

text \<open>
  Claim C6 fails on the code. For the binding \<^verbatim>\<open>{ post: "/v1/items" body: "*" }\<close> the verb and
  the path are recorded, but the body field-mask is not: the body pattern asks for a
  backslash after \<^verbatim>\<open>body:\<close>, so \<^verbatim>\<open>http_body\<close> stays empty.
\<close>

theorem parse_http_annotation_body_lost:
  "parse_http_annotation binding_example_body binding_example_method
   = binding_example_method\<lparr>http_method := ''POST'', http_path := ''/v1/items''\<rparr>
   \<and> http_body (parse_http_annotation binding_example_body binding_example_method) = ''''"
  by code_simp

section \<open>Properties of the type reference graph\<close>


















lemma cycle_result:
  "map (\<lambda>(k, obj, pkg). (k, pkg)) (fst (collect_referenced_types no_files cycle_generator))
   = [(''ext.v1.A'', ''ext.v1''), (''ext.v1.B'', ''ext.v1''), (''ext.v1.C'', ''ext.v1''), (''ext.v1.D'', ''ext.v1'')]"
  by code_simp








section \<open>Properties of the types appendix\<close>





section \<open>Properties of the example synthesis\<close>







section \<open>Properties of the curl example\<close>

lemma curl_body_part_cases:
  "curl_body_part P method = Some body \<Longrightarrow>
   (body = [] \<or> (\<exists>b. body = [''-d '' @ b]))
   \<and> (body \<noteq> [] \<longleftrightarrow>
        http_method method \<in> set [''POST'', ''PUT'', ''PATCH''] \<and> input_type method \<noteq> ''''
        \<and> (\<exists>m. dict_get (messages P) (input_type method) = Some m \<and> m_fields m \<noteq> []))"
  unfolding curl_body_part_def
  by (auto split: if_splits option.splits Option.bind_splits)

lemma curl_parts_shape:
  assumes "curl_parts P method = Some parts"
  shows "4 \<le> length parts"
    and "(\<exists>p \<in> set parts. startswith p ''-X '') \<longleftrightarrow>
         (http_method method \<noteq> '''' \<and> upper (http_method method) \<noteq> ''GET'')"
    and "(\<exists>p \<in> set parts. startswith p ''-d '') \<longleftrightarrow>
         (http_method method \<in> set [''POST'', ''PUT'', ''PATCH''] \<and> input_type method \<noteq> ''''
          \<and> (\<exists>m. dict_get (messages P) (input_type method) = Some m \<and> m_fields m \<noteq> []))"
    and "curl_lines parts
         = [''curl '' @ [backslash]]
           @ map (\<lambda>part. ''  '' @ part @ '' '' @ [backslash]) (butlast (tl parts))
           @ [''  '' @ last parts]"
proof -
  from assms obtain body where body: "curl_body_part P method = Some body"
    and parts: "parts = [''curl'']
                @ (if http_method method \<noteq> '''' \<and> upper (http_method method) \<noteq> ''GET''
                   then [''-X '' @ upper (http_method method)] else [])
                @ [[dq] @ ''https://saas-api.tmprl.cloud'' @ http_path method @ [dq]]
                @ [''-H '' @ [dq] @ ''Content-Type: application/json'' @ [dq],
                   ''-H '' @ [dq] @ ''Authorization: Bearer YOUR_API_KEY'' @ [dq]]
                @ body"
    unfolding curl_parts_def by (auto split: Option.bind_splits simp: dq_def)
  note b = curl_body_part_cases [OF body]
  show len: "4 \<le> length parts" unfolding parts by simp
  show "(\<exists>p \<in> set parts. startswith p ''-X '') \<longleftrightarrow>
         (http_method method \<noteq> '''' \<and> upper (http_method method) \<noteq> ''GET'')"
    using b unfolding parts by (auto simp: startswith_def dq_def)
  show "(\<exists>p \<in> set parts. startswith p ''-d '') \<longleftrightarrow>
         (http_method method \<in> set [''POST'', ''PUT'', ''PATCH''] \<and> input_type method \<noteq> ''''
          \<and> (\<exists>m. dict_get (messages P) (input_type method) = Some m \<and> m_fields m \<noteq> []))"
  proof -
    have "(\<exists>p \<in> set parts. startswith p ''-d '') \<longleftrightarrow> body \<noteq> []"
      using b unfolding parts by (auto simp: startswith_def dq_def)
    with b show ?thesis by blast
  qed
  have "hd parts = ''curl''" unfolding parts by simp
  with len show "curl_lines parts
         = [''curl '' @ [backslash]]
           @ map (\<lambda>part. ''  '' @ part @ '' '' @ [backslash]) (butlast (tl parts))
           @ [''  '' @ last parts]"
    by (simp add: curl_lines_def)
qed

text \<open>
  Claim C7 fails on the code in its last part. The command always has at least four parts
  (\<^verbatim>\<open>curl\<close>, the URL and two headers), also for a GET method, which has the fewest; the test
  for at most three parts is never met, and the example of a GET method is laid out on four
  backslash-continued lines, not on one. The verb flag is left out for GET, and no body is
  attached.
\<close>

theorem curl_example_get_multi_line:
  \<open>curl_parts empty_parser get_item_method
     = Some [''curl'',
             ''"https://saas-api.tmprl.cloud/v1/items/{id}"'',
             ''-H "Content-Type: application/json"'',
             ''-H "Authorization: Bearer YOUR_API_KEY"'']
   \<and> map_option curl_lines (curl_parts empty_parser get_item_method)
     = Some [''curl '' @ [backslash],
             ''  "https://saas-api.tmprl.cloud/v1/items/{id}" '' @ [backslash],
             ''  -H "Content-Type: application/json" '' @ [backslash],
             ''  -H "Authorization: Bearer YOUR_API_KEY"'']
   \<and> map_option length (generate_curl_example empty_parser get_item_method) = Some 9\<close>
  by code_simp

section \<open>Properties of the renderer\<close>

lemma lt_notin_html_escape: "CHR ''<'' \<notin> set (html_escape s)"
  by (induction s) (auto simp: html_escape_def html_escape_char_def dq_def sq_def)

lemma html_escape_not_heading:
  "html_escape s \<noteq> ''<h4>Request</h4>''" "html_escape s \<noteq> ''<h4>Response</h4>''"
  using lt_notin_html_escape [of s] by auto

lemma escaped_pair_not_heading:
  "html_escape a @ CHR '' '' # html_escape b \<noteq> ''<h4>Request</h4>''"
  "html_escape a @ CHR '' '' # html_escape b \<noteq> ''<h4>Response</h4>''"
proof -
  have n: "CHR ''<'' \<notin> set (html_escape a @ CHR '' '' # html_escape b)"
    using lt_notin_html_escape [of a] lt_notin_html_escape [of b] by simp
  have "CHR ''<'' \<in> set ''<h4>Request</h4>''" "CHR ''<'' \<in> set ''<h4>Response</h4>''"
    by simp_all
  with n show "html_escape a @ CHR '' '' # html_escape b \<noteq> ''<h4>Request</h4>''"
    and "html_escape a @ CHR '' '' # html_escape b \<noteq> ''<h4>Response</h4>''"
    by metis+
qed

lemma no_heading_append [simp]: "no_heading (xs @ ys) = (no_heading xs \<and> no_heading ys)"
  by (auto simp: no_heading_def)

lemma no_heading_Nil [simp]: "no_heading []"
  by (simp add: no_heading_def)

lemma no_heading_Cons [simp]:
  "no_heading (x # xs) = (x \<noteq> ''<h4>Request</h4>'' \<and> x \<noteq> ''<h4>Response</h4>'' \<and> no_heading xs)"
  by (auto simp: no_heading_def)

lemma no_heading_escaped: "no_heading (map html_escape ls)"
  by (induction ls) (simp_all add: html_escape_not_heading)

lemma no_heading_curl:
  "generate_curl_example P method = Some ls \<Longrightarrow> no_heading ls"
  unfolding generate_curl_example_def
  by (auto split: Option.bind_splits simp: Let_def no_heading_escaped)

lemma no_heading_http_body: "http_body_lines P method = Some ls \<Longrightarrow> no_heading ls"
  unfolding http_body_lines_def
  by (auto split: Option.bind_splits if_splits option.splits simp: html_escape_not_heading)

lemma no_heading_response_pane: "response_pane P method first = Some ls \<Longrightarrow> no_heading ls"
  unfolding response_pane_def
  by (auto split: Option.bind_splits if_splits option.splits simp: html_escape_not_heading)

lemma no_heading_example:
  "generate_html_example P method = Some ls \<Longrightarrow> no_heading ls"
  unfolding generate_html_example_def Let_def
  by (auto split: Option.bind_splits if_splits
      dest!: no_heading_curl no_heading_http_body no_heading_response_pane
      simp: escaped_pair_not_heading)

lemma no_heading_concat: "(\<And>x. x \<in> set xs \<Longrightarrow> no_heading (f x)) \<Longrightarrow> no_heading (concat (map f xs))"
  by (induction xs) simp_all

lemma no_heading_message_docs: "no_heading (generate_html_message_docs fs G message is_request)"
  unfolding generate_html_message_docs_def
  by (auto intro!: no_heading_concat simp: message_row_def Let_def)

lemma method_docs_None:
  "generate_html_method_docs fs G method service = None
   \<longleftrightarrow> generate_html_example (parser G) method = None"
  unfolding generate_html_method_docs_def Let_def by (auto split: Option.bind_splits)

lemma curl_example_None:
  "generate_curl_example P method = None \<longleftrightarrow> curl_body_part P method = None"
  unfolding generate_curl_example_def curl_parts_def Let_def by (auto split: Option.bind_splits)

lemma curl_body_part_None:
  "curl_body_part P method = None
   \<longleftrightarrow> (http_method method \<in> set [''POST'', ''PUT'', ''PATCH''] \<and> input_type method \<noteq> ''''
        \<and> (\<exists>m. dict_get (messages P) (input_type method) = Some m \<and> m_fields m \<noteq> []
                 \<and> generate_example_json P m = None))"
  unfolding curl_body_part_def by (auto split: Option.bind_splits option.splits)

lemma http_body_lines_None:
  "http_body_lines P method = None \<longleftrightarrow> curl_body_part P method = None"
  unfolding curl_body_part_None unfolding http_body_lines_def
  by (auto split: Option.bind_splits option.splits)

lemma response_pane_None:
  "response_pane P method first = None
   \<longleftrightarrow> (output_type method \<noteq> ''''
        \<and> (\<exists>m. dict_get (messages P) (output_type method) = Some m
                 \<and> generate_example_json P m = None))"
  unfolding response_pane_def by (auto split: Option.bind_splits option.splits)

lemma bind3_None:
  "Option.bind a (\<lambda>x. Option.bind b (\<lambda>y. Option.bind c (\<lambda>z. Some (f x y z)))) = None
   \<longleftrightarrow> a = None \<or> b = None \<or> c = None"
  by (cases a; cases b; cases c) simp_all

lemma example_None:
  "generate_html_example P method = None
   \<longleftrightarrow> (http_method method \<noteq> '''' \<and> http_path method \<noteq> '''' \<and> curl_body_part P method = None)
       \<or> response_pane P method (\<not> (http_method method \<noteq> '''' \<and> http_path method \<noteq> '''')) = None"
proof (cases "http_method method \<noteq> '''' \<and> http_path method \<noteq> ''''")
  case True
  then show ?thesis
    unfolding generate_html_example_def Let_def bind3_None
    by (simp add: curl_example_None http_body_lines_None)
next
  case False
  then show ?thesis
    unfolding generate_html_example_def Let_def bind3_None
    by auto
qed

lemma method_docs_sections:
  assumes "generate_html_method_docs fs G method service = Some doc"
  shows "dict_get (messages (parser G)) (input_type method) = None \<Longrightarrow> ''<h4>Request</h4>'' \<notin> set doc"
    and "dict_get (messages (parser G)) (output_type method) = None \<Longrightarrow> ''<h4>Response</h4>'' \<notin> set doc"
proof -
  from assms obtain example where ex: "generate_html_example (parser G) method = Some example"
    and doc: "doc = [''<div class='' @ [dq] @ ''method-header'' @ [dq] @ ''>'',
                     ''<h3 id='' @ [dq] @ lower (md_name method) @ [dq] @ ''>'' @ html_escape (md_name method) @ ''</h3>'',
                     ''<button class='' @ [dq] @ ''link-button'' @ [dq] @ '' data-anchor='' @ [dq] @ lower (md_name method)
                       @ [dq] @ '' title='' @ [dq] @ ''Copy link to this method'' @ [dq] @ ''>#</button>'',
                     ''</div>'']
                    @ (case get_service_package (parser G) service of
                         Some service_package \<Rightarrow>
                           if service_package \<noteq> ''''
                           then [''<p><em>From package:</em> <code>'' @ service_package @ ''</code></p>'']
                           else []
                       | None \<Rightarrow> [])
                    @ (if md_comment method \<noteq> ''''
                       then [''<p>'' @ html_escape (md_comment method) @ ''</p>''] else [])
                    @ (if http_method method \<noteq> '''' \<and> http_path method \<noteq> ''''
                       then [''<div class='' @ [dq] @ ''method-endpoint'' @ [dq] @ ''>'',
                             ''<code>'' @ html_escape (http_method method) @ '' ''
                               @ html_escape (http_path method) @ ''</code>'',
                             ''</div>'']
                       else [])
                    @ (case dict_get (messages (parser G)) (input_type method) of
                         Some input_message \<Rightarrow>
                           ''<h4>Request</h4>'' # generate_html_message_docs fs G input_message True
                       | None \<Rightarrow> [])
                    @ (case dict_get (messages (parser G)) (output_type method) of
                         Some output_message \<Rightarrow>
                           ''<h4>Response</h4>'' # generate_html_message_docs fs G output_message False
                       | None \<Rightarrow> [])
                    @ example
                    @ [''<div class='' @ [dq] @ ''method-divider'' @ [dq] @ ''></div>'']"
    unfolding generate_html_method_docs_def Let_def
    by (auto split: Option.bind_splits simp: dq_def)
  note e = no_heading_example [OF ex, unfolded no_heading_def]
  note m = no_heading_message_docs [unfolded no_heading_def]
  show "dict_get (messages (parser G)) (input_type method) = None \<Longrightarrow> ''<h4>Request</h4>'' \<notin> set doc"
    unfolding doc using e m by (auto split: option.splits if_splits simp: dq_def)
  show "dict_get (messages (parser G)) (output_type method) = None \<Longrightarrow> ''<h4>Response</h4>'' \<notin> set doc"
    unfolding doc using e m by (auto split: option.splits if_splits simp: dq_def)
qed

lemma fold_option_not_None:
  "(\<And>x acc. x \<in> set xs \<Longrightarrow> f x acc \<noteq> None) \<Longrightarrow> fold_option f xs acc \<noteq> None"
proof (induction xs arbitrary: acc)
  case Nil
  show ?case by simp
next
  case (Cons x xs)
  from Cons.prems [of x acc] obtain acc' where "f x acc = Some acc'" by auto
  moreover have "fold_option f xs acc' \<noteq> None"
    by (rule Cons.IH) (simp add: Cons.prems)
  ultimately show ?case by simp
qed

lemma service_docs_not_None:
  assumes "\<And>method. method \<in> set (s_methods service) \<Longrightarrow>
             generate_html_method_docs fs G method service \<noteq> None"
  shows "generate_html_service_docs fs G service \<noteq> None"
proof -
  have "fold_option (\<lambda>method doc.
                       Option.bind (generate_html_method_docs fs G method service)
                         (\<lambda>lines. Some (doc @ lines)))
                    (s_methods service) [] \<noteq> None"
    by (rule fold_option_not_None) (use assms in \<open>auto split: Option.bind_splits\<close>)
  then show ?thesis
    unfolding generate_html_service_docs_def by (auto split: Option.bind_splits)
qed

lemma fallback_head_formats:
  "py_format (get_fallback_template ''html_head.html'') ''title'' t \<noteq> None"
  by (simp add: get_fallback_template_def)

lemma fallback_footer_formats:
  "py_format (get_fallback_template ''html_footer.html'') ''javascript'' js \<noteq> None"
  by (simp add: get_fallback_template_def)

lemma load_template_missing:
  "fs (path_join (template_dir G) name) = None \<Longrightarrow> load_template fs G name = get_fallback_template name"
  by (simp add: load_template_def)

lemma html_lines_not_None:
  assumes "py_format (load_template fs G ''html_head.html'') ''title'' ''Temporal Cloud Ops API Reference'' \<noteq> None"
    and "py_format (load_template fs G ''html_footer.html'') ''javascript'' (load_template fs G ''scripts.js'') \<noteq> None"
    and "\<And>sn service. (sn, service) \<in> set (services (parser G)) \<Longrightarrow>
           generate_html_service_docs fs G service \<noteq> None"
  shows "generate_html fs G \<noteq> None"
proof -
  have "fold_option (\<lambda>(service_name, service) doc.
                                    Option.bind (generate_html_service_docs fs G service)
                                      (\<lambda>lines. Some (doc @ lines)))
                                 (services (parser G)) [] \<noteq> None"
    by (rule fold_option_not_None) (use assms(3) in \<open>auto split: Option.bind_splits\<close>)
  with assms(1,2) show ?thesis
    unfolding generate_html_def generate_html_lines_def Let_def
    by (auto split: Option.bind_splits)
qed

lemma method_docs_unresolved_input:
  assumes "dict_get (messages (parser G)) (input_type method) = None"
  shows "generate_html_method_docs fs G method service = None
         \<longleftrightarrow> (output_type method \<noteq> ''''
              \<and> (\<exists>m. dict_get (messages (parser G)) (output_type method) = Some m
                       \<and> generate_example_json (parser G) m = None))"
  unfolding method_docs_None example_None curl_body_part_None response_pane_None
  using assms by auto

lemma method_docs_unresolved_output:
  assumes "dict_get (messages (parser G)) (output_type method) = None"
  shows "generate_html_method_docs fs G method service = None
         \<longleftrightarrow> (http_method method \<in> set [''POST'', ''PUT'', ''PATCH''] \<and> http_path method \<noteq> ''''
              \<and> input_type method \<noteq> ''''
              \<and> (\<exists>m. dict_get (messages (parser G)) (input_type method) = Some m \<and> m_fields m \<noteq> []
                       \<and> generate_example_json (parser G) m = None))"
  unfolding method_docs_None example_None curl_body_part_None response_pane_None
  using assms by auto

text \<open>
  Claim C8. When the input (output) type of a method is not a key of the message registry,
  the rendered method has no Request (Response) heading, and this is no failure: with the
  input unresolved the method fails to render only if the example for the resolved output
  has no value, with the output unresolved only if the example for the request body has
  none, and with both unresolved it always renders. A template that is not found is
  replaced by the embedded fallback, the fallbacks always format, and with all templates
  missing and all method types unresolved the whole document is produced.
\<close>

theorem rendering_degrades_gracefully:
  "(\<forall>doc. generate_html_method_docs fs G method service = Some doc \<longrightarrow>
      (dict_get (messages (parser G)) (input_type method) = None \<longrightarrow> ''<h4>Request</h4>'' \<notin> set doc)
    \<and> (dict_get (messages (parser G)) (output_type method) = None \<longrightarrow> ''<h4>Response</h4>'' \<notin> set doc))
   \<and> (dict_get (messages (parser G)) (input_type method) = None \<longrightarrow>
        (generate_html_method_docs fs G method service = None
         \<longleftrightarrow> (output_type method \<noteq> ''''
              \<and> (\<exists>m. dict_get (messages (parser G)) (output_type method) = Some m
                       \<and> generate_example_json (parser G) m = None))))
   \<and> (dict_get (messages (parser G)) (output_type method) = None \<longrightarrow>
        (generate_html_method_docs fs G method service = None
         \<longleftrightarrow> (http_method method \<in> set [''POST'', ''PUT'', ''PATCH''] \<and> http_path method \<noteq> ''''
              \<and> input_type method \<noteq> ''''
              \<and> (\<exists>m. dict_get (messages (parser G)) (input_type method) = Some m \<and> m_fields m \<noteq> []
                       \<and> generate_example_json (parser G) m = None))))
   \<and> (\<forall>name. fs (path_join (template_dir G) name) = None
          \<longrightarrow> load_template fs G name = get_fallback_template name)
   \<and> (\<forall>title. py_format (get_fallback_template ''html_head.html'') ''title'' title \<noteq> None)
   \<and> (\<forall>js. py_format (get_fallback_template ''html_footer.html'') ''javascript'' js \<noteq> None)
   \<and> ((\<forall>name \<in> set [''html_head.html'', ''html_footer.html'', ''scripts.js''].
           fs (path_join (template_dir G) name) = None)
       \<and> (\<forall>(service_name, s) \<in> set (services (parser G)). \<forall>md \<in> set (s_methods s).
             dict_get (messages (parser G)) (input_type md) = None
             \<and> dict_get (messages (parser G)) (output_type md) = None)
       \<longrightarrow> generate_html fs G \<noteq> None)"
proof (intro conjI allI impI)
  fix doc
  assume doc: "generate_html_method_docs fs G method service = Some doc"
  show "dict_get (messages (parser G)) (input_type method) = None \<Longrightarrow> ''<h4>Request</h4>'' \<notin> set doc"
    by (rule method_docs_sections(1) [OF doc])
  show "dict_get (messages (parser G)) (output_type method) = None \<Longrightarrow> ''<h4>Response</h4>'' \<notin> set doc"
    by (rule method_docs_sections(2) [OF doc])
next
  assume "dict_get (messages (parser G)) (input_type method) = None"
  then show "generate_html_method_docs fs G method service = None
         \<longleftrightarrow> (output_type method \<noteq> ''''
              \<and> (\<exists>m. dict_get (messages (parser G)) (output_type method) = Some m
                       \<and> generate_example_json (parser G) m = None))"
    by (rule method_docs_unresolved_input)
next
  assume "dict_get (messages (parser G)) (output_type method) = None"
  then show "generate_html_method_docs fs G method service = None
         \<longleftrightarrow> (http_method method \<in> set [''POST'', ''PUT'', ''PATCH''] \<and> http_path method \<noteq> ''''
              \<and> input_type method \<noteq> ''''
              \<and> (\<exists>m. dict_get (messages (parser G)) (input_type method) = Some m \<and> m_fields m \<noteq> []
                       \<and> generate_example_json (parser G) m = None))"
    by (rule method_docs_unresolved_output)
next
  fix name
  assume "fs (path_join (template_dir G) name) = None"
  then show "load_template fs G name = get_fallback_template name"
    by (rule load_template_missing)
next
  fix title
  show "py_format (get_fallback_template ''html_head.html'') ''title'' title \<noteq> None"
    by (rule fallback_head_formats)
next
  fix js
  show "py_format (get_fallback_template ''html_footer.html'') ''javascript'' js \<noteq> None"
    by (rule fallback_footer_formats)
next
  assume H: "(\<forall>name \<in> set [''html_head.html'', ''html_footer.html'', ''scripts.js''].
           fs (path_join (template_dir G) name) = None)
       \<and> (\<forall>(service_name, s) \<in> set (services (parser G)). \<forall>md \<in> set (s_methods s).
             dict_get (messages (parser G)) (input_type md) = None
             \<and> dict_get (messages (parser G)) (output_type md) = None)"
  then have t: "load_template fs G ''html_head.html'' = get_fallback_template ''html_head.html''"
    "load_template fs G ''html_footer.html'' = get_fallback_template ''html_footer.html''"
    by (simp_all add: load_template_missing)
  show "generate_html fs G \<noteq> None"
  proof (rule html_lines_not_None)
    show "py_format (load_template fs G ''html_head.html'') ''title'' ''Temporal Cloud Ops API Reference'' \<noteq> None"
      unfolding t by (rule fallback_head_formats)
    show "py_format (load_template fs G ''html_footer.html'') ''javascript'' (load_template fs G ''scripts.js'') \<noteq> None"
      unfolding t by (rule fallback_footer_formats)
  next
    fix sn service
    assume s: "(sn, service) \<in> set (services (parser G))"
    show "generate_html_service_docs fs G service \<noteq> None"
    proof (rule service_docs_not_None)
      fix md assume "md \<in> set (s_methods service)"
      with H s have u: "dict_get (messages (parser G)) (input_type md) = None"
        "dict_get (messages (parser G)) (output_type md) = None"
        by auto
      show "generate_html_method_docs fs G md service \<noteq> None"
        unfolding method_docs_unresolved_input [OF u(1)] using u(2) by simp
    qed
  qed
qed

theorem rendering_degrades_gracefully_witness:
  "dict_get (messages (parser orphan_generator)) (input_type orphan_method) = None
   \<and> dict_get (messages (parser orphan_generator)) (output_type orphan_method) = None
   \<and> generate_html_method_docs no_files orphan_generator orphan_method orphan_service \<noteq> None
   \<and> ''<h4>Request</h4>''
       \<notin> set (the (generate_html_method_docs no_files orphan_generator orphan_method orphan_service))
   \<and> ''<h4>Response</h4>''
       \<notin> set (the (generate_html_method_docs no_files orphan_generator orphan_method orphan_service))
   \<and> load_template no_files orphan_generator ''html_head.html'' = get_fallback_template ''html_head.html''
   \<and> generate_html no_files orphan_generator \<noteq> None"
proof -
  note t = rendering_degrades_gracefully [of no_files orphan_generator orphan_method orphan_service]
  have i: "dict_get (messages (parser orphan_generator)) (input_type orphan_method) = None"
    and out: "dict_get (messages (parser orphan_generator)) (output_type orphan_method) = None"
    by (simp_all add: orphan_generator_def orphan_method_def empty_parser_def dict_get_def)
  have n: "generate_html_method_docs no_files orphan_generator orphan_method orphan_service \<noteq> None"
    using t [THEN conjunct2, THEN conjunct1, THEN mp, OF i] out by simp
  then obtain doc where doc:
    "generate_html_method_docs no_files orphan_generator orphan_method orphan_service = Some doc"
    by auto
  have s: "''<h4>Request</h4>'' \<notin> set doc" "''<h4>Response</h4>'' \<notin> set doc"
    using t [THEN conjunct1, THEN spec, THEN mp, OF doc] i out by simp_all
  have l: "load_template no_files orphan_generator ''html_head.html''
           = get_fallback_template ''html_head.html''"
    by (rule t [THEN conjunct2, THEN conjunct2, THEN conjunct2, THEN conjunct1, THEN spec, THEN mp])
       (simp add: no_files_def)
  have H: "(\<forall>name \<in> set [''html_head.html'', ''html_footer.html'', ''scripts.js''].
              no_files (path_join (template_dir orphan_generator) name) = None)
           \<and> (\<forall>(service_name, s) \<in> set (services (parser orphan_generator)). \<forall>md \<in> set (s_methods s).
                 dict_get (messages (parser orphan_generator)) (input_type md) = None
                 \<and> dict_get (messages (parser orphan_generator)) (output_type md) = None)"
    by (simp add: no_files_def orphan_generator_def orphan_service_def orphan_method_def
        empty_parser_def dict_get_def)
  have g: "generate_html no_files orphan_generator \<noteq> None"
    by (rule t [THEN conjunct2, THEN conjunct2, THEN conjunct2, THEN conjunct2, THEN conjunct2,
          THEN conjunct2, THEN mp, OF H])
  show ?thesis using i out n s l g doc by simp
qed

end
